theory Spec2Isabelle
  imports Main
begin

section \<open>JavaScript values and strings\<close>

text \<open>
  The module \<open>stt.js\<close> handles plain data: what \<open>JSON.parse\<close> returns, the option and
  configuration objects, and strings. A string is a list of code units; the model covers
  the strings whose code units are below 256, one \<open>char\<close> per code unit. A number is
  represented by its canonical decimal rendering (the value of \<open>String(n)\<close>, for example
  \<open>5\<close>, \<open>-1\<close>, \<open>0.6\<close>, \<open>NaN\<close>): the program only converts numbers to strings and tests
  them for truthiness. An object is the list of its own properties; the first binding of
  a name is the property's value.
\<close>

datatype js =
    JUndefined
  | JNull
  | JBool bool
  | JNum string
  | JStr string
  | JArr "js list"
  | JObj "(string \<times> js) list"

type_synonym obj = "(string \<times> js) list"

datatype error =
    Error string
  | TypeError
  | SyntaxError
  | NetworkError string
  | IOError string
  | EngineError string

text \<open>Truthiness (\<open>!v\<close>, \<open>||\<close>, \<open>if (v)\<close>) and the nullish test of \<open>??\<close> and \<open>?.\<close>.\<close>

fun truthy :: "js \<Rightarrow> bool" where
  "truthy JUndefined = False"
| "truthy JNull = False"
| "truthy (JBool b) = b"
| "truthy (JNum n) = (n \<noteq> ''0'' \<and> n \<noteq> ''NaN'')"
| "truthy (JStr s) = (s \<noteq> [])"
| "truthy (JArr xs) = True"
| "truthy (JObj kvs) = True"

fun nullish :: "js \<Rightarrow> bool" where
  "nullish JUndefined = True"
| "nullish JNull = True"
| "nullish v = False"

definition js_or :: "js \<Rightarrow> js \<Rightarrow> js" where
  "js_or a b = (if truthy a then a else b)"

definition js_coalesce :: "js \<Rightarrow> js \<Rightarrow> js" where
  "js_coalesce a b = (if nullish a then b else a)"

text \<open>
  \<open>propOf\<close> reads a property of an object that is known to be one (\<open>options\<close>,
  \<open>config\<close>). \<open>field\<close> is \<open>v.name\<close> on a value that is neither \<open>undefined\<close> nor \<open>null\<close>:
  the primitives and arrays have none of the names the module reads (\<open>text\<close>, \<open>data\<close>,
  \<open>url\<close>, \<open>event_id\<close>, ...). \<open>getProp\<close> is \<open>v.name\<close> on any value (\<open>undefined.p\<close> and
  \<open>null.p\<close> throw a TypeError), \<open>optField\<close> is \<open>v?.name\<close>, \<open>index\<close> is \<open>v[i]\<close>,
  \<open>isString\<close> is \<open>typeof v === 'string'\<close> and \<open>isObjectType\<close> is \<open>typeof v === 'object'\<close>.
\<close>

definition propOf :: "obj \<Rightarrow> string \<Rightarrow> js" where
  "propOf kvs name = (case map_of kvs name of Some v \<Rightarrow> v | None \<Rightarrow> JUndefined)"

fun field :: "js \<Rightarrow> string \<Rightarrow> js" where
  "field (JObj kvs) name = propOf kvs name"
| "field v name = JUndefined"

definition getProp :: "js \<Rightarrow> string \<Rightarrow> error + js" where
  "getProp v name = (if nullish v then Inl TypeError else Inr (field v name))"

definition optField :: "js \<Rightarrow> string \<Rightarrow> js" where
  "optField v name = (if nullish v then JUndefined else field v name)"

fun isString :: "js \<Rightarrow> bool" where
  "isString (JStr s) = True"
| "isString v = False"

fun stringOf :: "js \<Rightarrow> string" where
  "stringOf (JStr s) = s"
| "stringOf v = []"

fun isObjectType :: "js \<Rightarrow> bool" where
  "isObjectType (JObj kvs) = True"
| "isObjectType (JArr xs) = True"
| "isObjectType JNull = True"
| "isObjectType v = False"

fun isArray :: "js \<Rightarrow> bool" where
  "isArray (JArr xs) = True"
| "isArray v = False"

fun index :: "js \<Rightarrow> nat \<Rightarrow> js" where
  "index (JArr xs) i = (if i < length xs then xs ! i else JUndefined)"
| "index v i = JUndefined"

fun joinWith :: "string \<Rightarrow> string list \<Rightarrow> string" where
  "joinWith sep [] = []"
| "joinWith sep [x] = x"
| "joinWith sep (x # y # ys) = x @ sep @ joinWith sep (y # ys)"

text \<open>
  \<open>String(v)\<close>, template-literal interpolation and the conversion of an argument that
  must be a string. An array is its elements joined by commas, with \<open>null\<close> and
  \<open>undefined\<close> elements rendered empty; the elements are converted in order and the first
  failure is the array's. An object is \<open>[object Object]\<close>, unless it has an own property
  \<open>toString\<close>: no value of this model is callable, so that property hides the inherited
  method, \<open>valueOf\<close> gives the object back, and the conversion throws a TypeError.
\<close>

fun collect :: "(error + 'a) list \<Rightarrow> error + 'a list" where
  "collect [] = Inr []"
| "collect (Inl err # rs) = Inl err"
| "collect (Inr x # rs) = (case collect rs of Inl err \<Rightarrow> Inl err | Inr xs \<Rightarrow> Inr (x # xs))"

fun jsString :: "js \<Rightarrow> error + string" where
  "jsString JUndefined = Inr ''undefined''"
| "jsString JNull = Inr ''null''"
| "jsString (JBool b) = Inr (if b then ''true'' else ''false'')"
| "jsString (JNum n) = Inr n"
| "jsString (JStr s) = Inr s"
| "jsString (JArr xs) =
     (case collect (map (\<lambda>x. if nullish x then Inr [] else jsString x) xs) of
        Inl err \<Rightarrow> Inl err
      | Inr parts \<Rightarrow> Inr (joinWith '','' parts))"
| "jsString (JObj kvs) =
     (if map_of kvs ''toString'' = None then Inr ''[object Object]'' else Inl TypeError)"

subsection \<open>String primitives\<close>

text \<open>
  White space as \<open>trim\<close> and the regular-expression class \<open>\s\<close> see it, among the code
  units below 256: tab, line feed, vertical tab, form feed, carriage return, space and
  no-break space. \<open>\d\<close> is the ten ASCII digits.
\<close>

definition isWhiteSpace :: "char \<Rightarrow> bool" where
  "isWhiteSpace c = (c \<in> set [CHR 0x09, CHR 0x0A, CHR 0x0B, CHR 0x0C, CHR 0x0D, CHR 0x20, CHR 0xA0])"

definition isDigit :: "char \<Rightarrow> bool" where
  "isDigit c = (c \<in> set ''0123456789'')"

definition trim :: "string \<Rightarrow> string" where
  "trim s = rev (dropWhile isWhiteSpace (rev (dropWhile isWhiteSpace s)))"

definition lowerChar :: "char \<Rightarrow> char" where
  "lowerChar c =
     (let n = (of_char c :: nat)
      in if (65 \<le> n \<and> n \<le> 90) \<or> (192 \<le> n \<and> n \<le> 222 \<and> n \<noteq> 215)
         then char_of (n + 32) else c)"

definition toLowerCase :: "string \<Rightarrow> string" where
  "toLowerCase s = map lowerChar s"

definition startsWith :: "string \<Rightarrow> string \<Rightarrow> bool" where
  "startsWith s p = (take (length p) s = p)"

text \<open>\<open>s.split(d)\<close> for a one-character separator: the empty string gives one empty piece.\<close>

fun splitOn :: "char \<Rightarrow> string \<Rightarrow> string list" where
  "splitOn d [] = [[]]"
| "splitOn d (c # cs) =
     (if c = d then [] # splitOn d cs
      else (case splitOn d cs of [] \<Rightarrow> [[c]] | l # ls \<Rightarrow> (c # l) # ls))"

section \<open>Model and device names\<close>

definition normalizeWhisperModel :: "js \<Rightarrow> error + string" where
  "normalizeWhisperModel modelName =
     (if \<not> truthy modelName then Inr ''base''
      else case jsString modelName of
             Inl err \<Rightarrow> Inl err
           | Inr s \<Rightarrow>
              (let normalized = trim (toLowerCase s)
               in if normalized = ''mid'' then Inr ''medium''
                  else if normalized = ''large_v2'' \<or> normalized = ''largev2''
                    then Inr ''large-v2''
                  else Inr normalized))"

definition normalizeGradioDevice :: "js \<Rightarrow> error + string" where
  "normalizeGradioDevice device =
     (case jsString (js_or device (JStr [])) of
        Inl err \<Rightarrow> Inl err
      | Inr s \<Rightarrow>
         (let raw = toLowerCase s
          in if raw = ''gpu'' \<or> raw = ''cuda'' then Inr ''cuda'' else Inr ''cpu''))"

section \<open>Subtitle cleanup\<close>

text \<open>
  \<open>cleaned.replace(/^\d{10,}-\d{6,}\s*/, '')\<close>: both digit runs and the white space are
  greedy, and a shorter first run cannot be followed by the dash, so the match, when
  there is one, is the whole leading digit run, the dash, the whole second digit run and
  all white space after it.
\<close>

definition stripTimestampPrefix :: "string \<Rightarrow> string" where
  "stripTimestampPrefix s =
     (let d1 = takeWhile isDigit s; r1 = dropWhile isDigit s
      in if 10 \<le> length d1 \<and> r1 \<noteq> [] \<and> hd r1 = CHR ''-''
         then (let d2 = takeWhile isDigit (tl r1); r2 = dropWhile isDigit (tl r1)
               in if 6 \<le> length d2 then dropWhile isWhiteSpace r2 else s)
         else s)"

text \<open>
  \<open>cleaned.split(/\r?\n/)\<close>: the pieces between line feeds, each piece that a line feed
  ends losing one carriage return before it.
\<close>

definition dropCR :: "string \<Rightarrow> string" where
  "dropCR l = (if l \<noteq> [] \<and> last l = CHR 0x0D then butlast l else l)"

definition splitLines :: "string \<Rightarrow> string list" where
  "splitLines s = (let ps = splitOn (CHR 0x0A) s in map dropCR (butlast ps) @ [last ps])"

text \<open>A fixed-length pattern: one character class per position.\<close>

definition matchClasses :: "(char \<Rightarrow> bool) list \<Rightarrow> string \<Rightarrow> bool" where
  "matchClasses ps s = list_all2 (\<lambda>p c. p c) ps s"

definition timestampClasses :: "(char \<Rightarrow> bool) list" where
  "timestampClasses =
     [isDigit, isDigit, (=) CHR '':'', isDigit, isDigit, (=) CHR '':'', isDigit, isDigit,
      (=) CHR '','', isDigit, isDigit, isDigit]"

text \<open>\<open>/^\d+$/\<close>, the SRT time range, and the two banner lines.\<close>

definition isSequenceNumber :: "string \<Rightarrow> bool" where
  "isSequenceNumber t = (t \<noteq> [] \<and> list_all isDigit t)"

definition isTimeRange :: "string \<Rightarrow> bool" where
  "isTimeRange t =
     matchClasses
       (timestampClasses @ [isWhiteSpace, (=) CHR ''-'', (=) CHR ''-'', (=) CHR ''>'', isWhiteSpace]
          @ timestampClasses) t"

definition isBanner :: "string \<Rightarrow> bool" where
  "isBanner t = (startsWith t ''Done in '' \<or> t = ''------------------------------------'')"

definition keepLine :: "string \<Rightarrow> bool" where
  "keepLine t = (t \<noteq> [] \<and> \<not> isSequenceNumber t \<and> \<not> isTimeRange t \<and> \<not> isBanner t)"

text \<open>
  \<open>stripSrt\<close> on a string, which is what both of its callers pass (\<open>String(text || '')\<close>
  is then the string itself).
\<close>

definition stripSrt :: "string \<Rightarrow> string" where
  "stripSrt text0 =
     (let cleaned = stripTimestampPrefix (trim text0);
          lines = splitLines cleaned;
          output = filter keepLine (map trim lines)
      in trim (joinWith '' '' output))"

section \<open>The environment of a call\<close>

text \<open>
  What the module reads but does not own: the configuration object, the file system,
  \<open>path.resolve\<close> (which depends on the working directory), \<open>JSON.parse\<close>, the read
  stream of a file (the chunks it emits, then \<open>end\<close> or one \<open>error\<close>), and the recognition
  engine (whether loading the model throws, and what \<open>finalResult()\<close> gives after the
  chunks fed).
\<close>

datatype fsnode = File string | Directory

record alternative =
  alt_text :: "string option"

record vosk_result =
  alternatives :: "alternative list option"

record env =
  config :: obj
  files :: "string \<Rightarrow> fsnode option"
  resolvePath :: "string \<Rightarrow> string"
  jsonParse :: "string \<Rightarrow> js option"
  readStream :: "string \<Rightarrow> string list \<times> error option"
  loadModel :: "error option"
  finalDecode :: "string list \<Rightarrow> error + vosk_result option"

definition existsSync :: "env \<Rightarrow> string \<Rightarrow> bool" where
  "existsSync e p = (p \<noteq> [] \<and> files e p \<noteq> None)"

text \<open>\<open>fs.readFileSync(p, 'utf8')\<close> and \<open>fs.promises.readFile(p)\<close>: a directory cannot be read.\<close>

definition readFile :: "env \<Rightarrow> string \<Rightarrow> error + string" where
  "readFile e p =
     (case files e p of
        Some (File c) \<Rightarrow> Inr c
      | Some Directory \<Rightarrow> Inl (IOError ''EISDIR'')
      | None \<Rightarrow> Inl (IOError ''ENOENT''))"

subsection \<open>The network and the trace of effects\<close>

record response =
  ok :: bool
  status :: string
  statusText :: string
  body :: string

datatype form_entry =
    BlobEntry string string string string
  | FieldEntry string string

datatype req_body = NoBody | JsonBody js | FormBody "form_entry list"

record request =
  httpMethod :: string
  url :: string
  headers :: "(string \<times> string) list"
  payload :: req_body

datatype event =
    Fetch request
  | NewRecognizer
  | AcceptWaveform string
  | FinalResult
  | Free
  | Resolve js
  | Reject error

text \<open>
  The world threads what changes: the outcomes the successive \<open>fetch\<close> calls will get (a
  transport failure is an error; with none left the transport fails), the trace of the
  effects so far, oldest first, and whether the engine's model is loaded. \<open>status\<close> is
  the status code as a template literal renders it; a \<open>BlobEntry\<close> is a form field with
  its file name, MIME type and content, a \<open>FieldEntry\<close> one with a text value.
\<close>

record world =
  incoming :: "(error + response) list"
  trace :: "event list"
  modelLoaded :: bool

definition emit :: "event \<Rightarrow> world \<Rightarrow> world" where
  "emit ev w = w\<lparr>trace := trace w @ [ev]\<rparr>"

definition fetch :: "request \<Rightarrow> world \<Rightarrow> (error + response) \<times> world" where
  "fetch req w =
     (case incoming w of
        [] \<Rightarrow> (Inl (NetworkError ''fetch failed''), emit (Fetch req) w)
      | r # rs \<Rightarrow> (r, emit (Fetch req) (w\<lparr>incoming := rs\<rparr>)))"

definition json :: "env \<Rightarrow> response \<Rightarrow> error + js" where
  "json e r = (case jsonParse e (body r) of None \<Rightarrow> Inl SyntaxError | Some v \<Rightarrow> Inr v)"

definition httpFailure :: "string \<Rightarrow> response \<Rightarrow> error" where
  "httpFailure what r = Error (what @ status r @ '' '' @ statusText r)"

section \<open>Result normalizer\<close>

text \<open>\<open>String(v).trim()\<close>.\<close>

definition stringTrim :: "js \<Rightarrow> error + string" where
  "stringTrim v = map_sum id trim (jsString v)"

definition extractWhisperText :: "env \<Rightarrow> js \<Rightarrow> error + string" where
  "extractWhisperText e result =
     (if \<not> truthy result then Inr []
      else if isArray result then
        (let first = index result 0
         in if truthy first \<and> isObjectType first \<and> isString (field first ''text'')
            then Inr (trim (stringOf (field first ''text'')))
            else stringTrim (js_coalesce first (JStr [])))
      else if truthy (field result ''data'') \<and> isArray (field result ''data'')
        then stringTrim (js_coalesce (index (field result ''data'') 0) (JStr []))
      else if truthy (field result ''data'') \<and> truthy (field (field result ''data'') ''data'')
              \<and> isArray (field (field result ''data'') ''data'')
        then stringTrim (js_coalesce (index (field (field result ''data'') ''data'') 0) (JStr []))
      else if isString result then
        (if existsSync e (stringOf result)
         then map_sum id trim (readFile e (stringOf result))
         else Inr (trim (stringOf result)))
      else if isString (field result ''text'') then Inr (trim (stringOf (field result ''text'')))
      else if isString (field result ''transcription'')
        then Inr (trim (stringOf (field result ''transcription'')))
      else if truthy (field result ''data'') \<and> isString (field (field result ''data'') ''text'')
        then Inr (trim (stringOf (field (field result ''data'') ''text'')))
      else if isString (field result ''outputPath'')
              \<and> existsSync e (stringOf (field result ''outputPath''))
        then map_sum id trim (readFile e (stringOf (field result ''outputPath'')))
      else Inr [])"

text \<open>
  \<open>fetch(u)\<close> converts \<open>u\<close> to a string first; when that throws, the promise rejects and
  no request is made.
\<close>

definition extractWhisperTextFromResult :: "env \<Rightarrow> js \<Rightarrow> world \<Rightarrow> (error + string) \<times> world" where
  "extractWhisperTextFromResult e result w =
     (if isArray result \<and> isArray (index result 1) \<and> truthy (index (index result 1) 0)
         \<and> truthy (field (index (index result 1) 0) ''url'')
      then (case jsString (field (index (index result 1) 0) ''url'') of
              Inl err \<Rightarrow> (Inl err, w)
            | Inr u \<Rightarrow>
               (case fetch \<lparr>httpMethod = ''GET'', url = u, headers = [], payload = NoBody\<rparr> w of
                  (Inl err, w1) \<Rightarrow> (Inl err, w1)
                | (Inr response, w1) \<Rightarrow>
                    if \<not> ok response
                    then (Inl (httpFailure ''Whisper output fetch failed: '' response), w1)
                    else (Inr (stripSrt (body response)), w1)))
      else (map_sum id stripSrt (extractWhisperText e result), w))"

section \<open>Remote batch service\<close>

text \<open>\<open>String(url).replace(/\/+$/, '')\<close>: all trailing slashes go.\<close>

definition normalizeBaseUrl :: "js \<Rightarrow> error + string" where
  "normalizeBaseUrl u =
     map_sum id (\<lambda>s. rev (dropWhile (\<lambda>c. c = CHR ''/'') (rev s))) (jsString u)"

text \<open>
  Node's \<open>path.basename\<close> and \<open>path.extname\<close> on POSIX paths. The base name is the last
  component, trailing slashes dropped. The extension runs from the last dot of the base
  name to its end, and is empty when there is no dot, when the last dot is the first
  character, and for the name of the parent directory.
\<close>

definition basename :: "string \<Rightarrow> string" where
  "basename p = rev (takeWhile (\<lambda>c. c \<noteq> CHR ''/'') (dropWhile (\<lambda>c. c = CHR ''/'') (rev p)))"

definition extname :: "string \<Rightarrow> string" where
  "extname p =
     (let n = basename p;
          after = takeWhile (\<lambda>c. c \<noteq> CHR ''.'') (rev n);
          upto = dropWhile (\<lambda>c. c \<noteq> CHR ''.'') (rev n)
      in if upto = [] \<or> tl upto = [] \<or> n = ''..'' then [] else CHR ''.'' # rev after)"

definition getMimeType :: "string \<Rightarrow> string" where
  "getMimeType fileName =
     (let ext = toLowerCase (extname fileName)
      in if ext = ''.wav'' then ''audio/wav''
         else if ext = ''.mp3'' then ''audio/mpeg''
         else if ext = ''.ogg'' then ''audio/ogg''
         else if ext = ''.flac'' then ''audio/flac''
         else if ext = ''.m4a'' then ''audio/mp4''
         else if ext = ''.aac'' then ''audio/aac''
         else ''application/octet-stream'')"

definition uploadToGradio :: "env \<Rightarrow> js \<Rightarrow> string \<Rightarrow> world \<Rightarrow> (error + js) \<times> world" where
  "uploadToGradio e apiUrl filePath w =
     (let resolvedPath = resolvePath e filePath
      in case readFile e resolvedPath of
           Inl err \<Rightarrow> (Inl err, w)
         | Inr data \<Rightarrow>
            (let baseName = basename resolvedPath;
                 ext = toLowerCase (extname baseName);
                 name = (if ext \<noteq> [] then baseName else baseName @ ''.wav'');
                 mimeType = getMimeType name;
                 form = [BlobEntry ''files'' name mimeType data]
             in case normalizeBaseUrl apiUrl of
                  Inl err \<Rightarrow> (Inl err, w)
                | Inr base \<Rightarrow>
                   (case fetch \<lparr>httpMethod = ''POST'', url = base @ ''/gradio_api/upload'',
                                 headers = [], payload = FormBody form\<rparr> w of
                      (Inl err, w1) \<Rightarrow> (Inl err, w1)
                    | (Inr response, w1) \<Rightarrow>
                        if \<not> ok response
                        then (Inl (httpFailure ''Gradio upload failed: '' response), w1)
                        else (case json e response of
                                Inl err \<Rightarrow> (Inl err, w1)
                              | Inr result \<Rightarrow>
                                  if \<not> isArray result \<or> \<not> truthy (index result 0)
                                  then (Inl (Error ''Gradio upload returned no file path.''), w1)
                                  else (Inr (index result 0), w1)))))"

text \<open>Lines 199 to 210 of \<open>callGradio\<close>: the payload of the event stream.\<close>

definition eventPayload :: "env \<Rightarrow> string \<Rightarrow> error + js" where
  "eventPayload e text0 =
     (let lines = filter (\<lambda>l. l \<noteq> []) (map trim (splitOn (CHR 0x0A) text0));
          dataLines = filter (\<lambda>l. startsWith l ''data:'') lines
      in if dataLines = [] then Inl (Error ''Gradio event returned no data.'')
         else (let lastData = trim (drop (length ''data:'') (last dataLines))
               in case jsonParse e lastData of Some v \<Rightarrow> Inr v | None \<Rightarrow> Inr (JStr lastData)))"

text \<open>\<open>result.event_id || result.eventId || result.id\<close>.\<close>

definition eventIdOf :: "js \<Rightarrow> error + js" where
  "eventIdOf result =
     (if nullish result then Inl TypeError
      else Inr (js_or (js_or (field result ''event_id'') (field result ''eventId''))
                  (field result ''id'')))"

text \<open>
  The two URLs of \<open>callGradio\<close>, template literals over the base URL, the API name and
  the event identifier, each converted to a string in turn.
\<close>

definition callUrlOf :: "js \<Rightarrow> js \<Rightarrow> error + string" where
  "callUrlOf apiUrl apiName =
     (case normalizeBaseUrl apiUrl of
        Inl err \<Rightarrow> Inl err
      | Inr base \<Rightarrow>
         (case jsString apiName of
            Inl err \<Rightarrow> Inl err
          | Inr name \<Rightarrow> Inr (base @ ''/gradio_api/call'' @ name)))"

definition eventUrlOf :: "js \<Rightarrow> js \<Rightarrow> js \<Rightarrow> error + string" where
  "eventUrlOf apiUrl apiName eventId =
     (case callUrlOf apiUrl apiName of
        Inl err \<Rightarrow> Inl err
      | Inr callUrl \<Rightarrow>
         (case jsString eventId of
            Inl err \<Rightarrow> Inl err
          | Inr ident \<Rightarrow> Inr (callUrl @ ''/'' @ ident)))"

definition callGradio :: "env \<Rightarrow> js \<Rightarrow> js \<Rightarrow> js list \<Rightarrow> world \<Rightarrow> (error + js) \<times> world" where
  "callGradio e apiUrl apiName dataArray w =
     (case callUrlOf apiUrl apiName of
        Inl err \<Rightarrow> (Inl err, w)
      | Inr callUrl \<Rightarrow>
         (case fetch \<lparr>httpMethod = ''POST'', url = callUrl,
                       headers = [(''Content-Type'', ''application/json'')],
                       payload = JsonBody (JObj [(''data'', JArr dataArray)])\<rparr> w of
            (Inl err, w1) \<Rightarrow> (Inl err, w1)
          | (Inr response, w1) \<Rightarrow>
              if \<not> ok response then (Inl (httpFailure ''Gradio call failed: '' response), w1)
              else (case json e response of
                      Inl err \<Rightarrow> (Inl err, w1)
                    | Inr result \<Rightarrow>
                       (case eventIdOf result of
                          Inl err \<Rightarrow> (Inl err, w1)
                        | Inr eventId \<Rightarrow>
                            if \<not> truthy eventId
                            then (Inl (Error ''Gradio call returned no event id.''), w1)
                            else (case eventUrlOf apiUrl apiName eventId of
                                    Inl err \<Rightarrow> (Inl err, w1)
                                  | Inr eventUrl \<Rightarrow>
                                     (case fetch \<lparr>httpMethod = ''GET'', url = eventUrl,
                                                   headers = [], payload = NoBody\<rparr> w1 of
                                        (Inl err, w2) \<Rightarrow> (Inl err, w2)
                                      | (Inr eventResponse, w2) \<Rightarrow>
                                          if \<not> ok eventResponse
                                          then (Inl (httpFailure ''Gradio event failed: ''
                                                       eventResponse), w2)
                                          else (eventPayload e (body eventResponse), w2)))))))"

definition GRADIO_FILE_META :: js where
  "GRADIO_FILE_META = JObj [(''_type'', JStr ''gradio.FileData'')]"

text \<open>
  The parameter vector of \<open>transcribeWithWhisper\<close> (lines 254 to 309), one element per
  source line, in the source's order.
\<close>

definition whisperData :: "obj \<Rightarrow> string \<Rightarrow> string \<Rightarrow> js \<Rightarrow> js list" where
  "whisperData options modelName device uploadPath =
     [JArr [JObj [(''path'', uploadPath), (''meta'', GRADIO_FILE_META)]],
      JStr [],
      JBool False,
      JBool True,
      js_or (propOf options ''fileFormat'') (JStr ''txt''),
      JBool False,
      JStr modelName,
      js_or (propOf options ''language'') (JStr ''Automatic Detection''),
      JBool False,
      JNum ''5'',
      JNum ''-1'',
      JNum ''0.6'',
      js_or (propOf options ''computeType'') (JStr ''float16''),
      JNum ''5'',
      JNum ''1'',
      JBool True,
      JNum ''0.5'',
      js_or (propOf options ''initialPrompt'') (JStr []),
      JNum ''0'',
      JNum ''2.4'',
      JNum ''1'',
      JNum ''1'',
      JNum ''0'',
      js_or (propOf options ''prefix'') (JStr []),
      JBool True,
      JStr ''[-1]'',
      JNum ''1'',
      JBool False,
      JStr [CHR 0x22, CHR 0x27, CHR ''('', CHR ''['', CHR ''{'', CHR ''-''],
      JStr [CHR 0x22, CHR 0x27, CHR ''.'', CHR ''!'', CHR ''?'', CHR '':'', CHR '')'', CHR '']'',
            CHR ''}''],
      js_coalesce (propOf options ''maxNewTokens'') (JNum ''3''),
      JNum ''30'',
      js_coalesce (propOf options ''hallucinationSilenceThreshold'') (JNum ''3''),
      js_or (propOf options ''hotwords'') (JStr []),
      JNum ''0.5'',
      JNum ''1'',
      JNum ''24'',
      JBool True,
      JBool False,
      JNum ''0.5'',
      JNum ''250'',
      JNum ''9999'',
      JNum ''1000'',
      JNum ''2000'',
      JBool False,
      JStr device,
      JStr [],
      JBool True,
      JBool False,
      JStr ''UVR-MDX-NET-Inst_HQ_4'',
      JStr device,
      JNum ''256'',
      JBool False,
      JBool True]"

definition transcribeWithWhisper :: "env \<Rightarrow> string \<Rightarrow> obj \<Rightarrow> world \<Rightarrow> (error + js) \<times> world" where
  "transcribeWithWhisper e filePath options w =
     (let apiUrl = propOf (config e) ''whisperApiUrl''
      in if \<not> truthy apiUrl then (Inl (Error ''Missing whisperApiUrl in config.''), w)
         else
          (case normalizeWhisperModel
                  (js_or (js_or (propOf options ''model'') (propOf (config e) ''whisperModel''))
                     (JStr ''base'')) of
             Inl err \<Rightarrow> (Inl err, w)
           | Inr modelName \<Rightarrow>
              (case normalizeGradioDevice
                      (js_or (js_or (propOf options ''device'')
                                (propOf (config e) ''whisperDevice''))
                         (JStr ''cpu'')) of
                 Inl err \<Rightarrow> (Inl err, w)
               | Inr device \<Rightarrow>
                  (let apiName = js_or (js_or (propOf options ''apiName'')
                                         (propOf (config e) ''whisperApiName''))
                                   (JStr ''/transcribe_file'')
                   in case uploadToGradio e apiUrl filePath w of
                        (Inl err, w1) \<Rightarrow> (Inl err, w1)
                      | (Inr uploadPath, w1) \<Rightarrow>
                         (let data = whisperData options modelName device uploadPath
                          in case callGradio e apiUrl apiName data w1 of
                               (Inl err, w2) \<Rightarrow> (Inl err, w2)
                             | (Inr result, w2) \<Rightarrow>
                                (case extractWhisperTextFromResult e result w2 of
                                   (Inl err, w3) \<Rightarrow> (Inl err, w3)
                                 | (Inr t, w3) \<Rightarrow> (Inr (JStr t), w3)))))))"

section \<open>Primary service\<close>

text \<open>
  How a call ends: the promise resolves, it rejects, or the process ends (which no
  \<open>catch\<close> sees), by \<open>process.exit\<close> or by an exception that nothing catches, for which
  Node exits with code 1.
\<close>

datatype 'a outcome = Resolved 'a | Rejected error | ProcessExit nat

definition settled :: "(error + 'a) \<times> 'w \<Rightarrow> 'a outcome \<times> 'w" where
  "settled r = (case r of (Inl err, w) \<Rightarrow> (Rejected err, w) | (Inr v, w) \<Rightarrow> (Resolved v, w))"

text \<open>
  \<open>transcribeWithWhisperPrimary\<close> opens \<open>fs.createReadStream(resolvedPath)\<close> and puts no
  \<open>error\<close> listener on it. The stream opens its file once the synchronous part of the call
  is over; when there is no such file it emits \<open>error\<close>, which without a listener is
  thrown, and the process ends, whatever the call was doing. \<open>unheard\<close> is that overriding
  end. The global \<open>FormData\<close> takes anything but a blob as a string, so the stream goes
  into the form as the text \<open>[object Object]\<close>, and the model name as its string.
\<close>

definition unheard :: "bool \<Rightarrow> 'a outcome \<times> 'w \<Rightarrow> 'a outcome \<times> 'w" where
  "unheard unopened r = (if unopened then (ProcessExit 1, snd r) else r)"

definition transcribeWithWhisperPrimary ::
  "env \<Rightarrow> string \<Rightarrow> obj \<Rightarrow> world \<Rightarrow> js outcome \<times> world" where
  "transcribeWithWhisperPrimary e filePath options w =
     (let url0 = js_or (js_or (propOf options ''primaryUrl'')
                          (propOf (config e) ''whisperPrimaryUrl''))
                   (JStr ''http://localhost:8080/v1/audio/transcriptions'');
          modelName = js_or (js_or (js_or (js_or (propOf options ''primaryModel'')
                                             (propOf options ''model''))
                                      (propOf (config e) ''whisperPrimaryModel''))
                               (propOf (config e) ''whisperModel''))
                        (JStr ''base'');
          resolvedPath = resolvePath e filePath;
          unopened = (files e resolvedPath = None)
      in case jsString modelName of
           Inl err \<Rightarrow> unheard unopened (Rejected err, w)
         | Inr modelText \<Rightarrow>
            (case jsString url0 of
               Inl err \<Rightarrow> unheard unopened (Rejected err, w)
             | Inr urlText \<Rightarrow>
                (let form = [FieldEntry ''file'' ''[object Object]'', FieldEntry ''model'' modelText];
                     request = \<lparr>httpMethod = ''POST'', url = urlText, headers = [],
                                payload = FormBody form\<rparr>
                 in if unopened then (ProcessExit 1, emit (Fetch request) w)
                    else
                     (case fetch request w of
                        (Inl err, w1) \<Rightarrow> (Rejected err, w1)
                      | (Inr response, w1) \<Rightarrow>
                          if \<not> ok response
                          then (Rejected (httpFailure ''Primary whisper failed: '' response), w1)
                          else (case json e response of
                                  Inl err \<Rightarrow> (Rejected err, w1)
                                | Inr result \<Rightarrow>
                                   (let text0 = js_coalesce
                                          (js_coalesce (optField result ''text'')
                                             (optField result ''transcript''))
                                          (optField result ''transcription'')
                                    in if \<not> truthy text0
                                       then (Rejected (Error ''Primary whisper returned no text.''), w1)
                                       else (case stringTrim text0 of
                                               Inl err \<Rightarrow> (Rejected err, w1)
                                             | Inr t \<Rightarrow> (Resolved (JStr t), w1))))))))"

section \<open>Offline recognizer\<close>

text \<open>
  \<open>MODEL_PATH\<close> is computed once, when the module loads. A configuration whose
  \<open>vaskmodel\<close> has no string form makes the load itself throw, so for it there is no
  module and no call to model; the constant is given the bare directory there.
\<close>

definition MODEL_PATH :: "env \<Rightarrow> string" where
  "MODEL_PATH e =
     ''./model/'' @ (case jsString (propOf (config e) ''vaskmodel'') of
                       Inr s \<Rightarrow> s
                     | Inl err \<Rightarrow> [])"

definition voskLoader :: "env \<Rightarrow> world \<Rightarrow> unit outcome \<times> world" where
  "voskLoader e w =
     (if modelLoaded w then (Resolved (), w)
      else if \<not> existsSync e (MODEL_PATH e) then (ProcessExit 1, w)
      else (case loadModel e of
              Some err \<Rightarrow> (Rejected err, w)
            | None \<Rightarrow> (Resolved (), w\<lparr>modelLoaded := True\<rparr>)))"

text \<open>\<open>finalResult?.alternatives?.[0]?.text?.trim() ?? ""\<close>.\<close>

definition bestText :: "vosk_result option \<Rightarrow> string" where
  "bestText finalResult =
     (case finalResult of
        None \<Rightarrow> []
      | Some r \<Rightarrow>
         (case alternatives r of
            None \<Rightarrow> []
          | Some [] \<Rightarrow> []
          | Some (a # as) \<Rightarrow> (case alt_text a of None \<Rightarrow> [] | Some t \<Rightarrow> trim t)))"

text \<open>
  The three handlers of \<open>transcribeWithVosk\<close>: \<open>data\<close> feeds a chunk, \<open>end\<close> takes the
  final result, \<open>error\<close> gives up. Each returns how the promise is settled, if it is.
  The stream emits \<open>end\<close> or \<open>error\<close>, never both. Of the engine's calls only loading the
  model and \<open>finalResult()\<close> are modelled as able to throw; the constructor, the setters,
  \<open>acceptWaveform\<close> and \<open>free\<close> are not. The engine's result is typed: the text of an
  alternative is a string or absent, so \<open>trim\<close> cannot fail on it.
\<close>

definition onData :: "string \<Rightarrow> world \<Rightarrow> world" where
  "onData chunk w = emit (AcceptWaveform chunk) w"

definition onEnd :: "env \<Rightarrow> string list \<Rightarrow> world \<Rightarrow> js outcome \<times> world" where
  "onEnd e chunks w =
     (case finalDecode e chunks of
        Inr finalResult \<Rightarrow>
          (let w1 = emit Free (emit FinalResult w);
               text0 = bestText finalResult
           in if text0 \<noteq> [] then (Resolved (JStr text0), emit (Resolve (JStr text0)) w1)
              else (Resolved (JBool False), emit (Resolve (JBool False)) w1))
      | Inl err \<Rightarrow>
          (let w1 = emit Free (emit FinalResult w)
           in (Rejected err, emit (Reject err) w1)))"

definition onError :: "error \<Rightarrow> world \<Rightarrow> js outcome \<times> world" where
  "onError err w = (Rejected err, emit (Reject err) (emit Free w))"

definition transcribeWithVosk :: "env \<Rightarrow> string \<Rightarrow> world \<Rightarrow> js outcome \<times> world" where
  "transcribeWithVosk e filePath w =
     (let (chunks, failure) = readStream e filePath
      in case voskLoader e w of
           (ProcessExit n, w1) \<Rightarrow> (ProcessExit n, w1)
         | (Rejected err, w1) \<Rightarrow> (Rejected err, emit (Reject err) w1)
         | (Resolved u, w1) \<Rightarrow>
            (let w2 = emit NewRecognizer w1;
                 w3 = foldl (\<lambda>v chunk. onData chunk v) w2 chunks
             in case failure of
                  None \<Rightarrow> onEnd e chunks w3
                | Some err \<Rightarrow> onError err w3))"

section \<open>Orchestrator\<close>

text \<open>
  \<open>try { return await primary } catch { try { return await batch } catch { return await
  offline } }\<close>, for any three backends: a rejection passes to the next backend, and the
  end of the process is the end.
\<close>

definition fallbackChain ::
  "('w \<Rightarrow> 'a outcome \<times> 'w) \<Rightarrow> ('w \<Rightarrow> 'a outcome \<times> 'w) \<Rightarrow> ('w \<Rightarrow> 'a outcome \<times> 'w)
     \<Rightarrow> 'w \<Rightarrow> 'a outcome \<times> 'w" where
  "fallbackChain primary batch offline w =
     (case primary w of
        (Resolved v, w1) \<Rightarrow> (Resolved v, w1)
      | (ProcessExit n, w1) \<Rightarrow> (ProcessExit n, w1)
      | (Rejected err, w1) \<Rightarrow>
         (case batch w1 of
            (Resolved v, w2) \<Rightarrow> (Resolved v, w2)
          | (ProcessExit n, w2) \<Rightarrow> (ProcessExit n, w2)
          | (Rejected innerErr, w2) \<Rightarrow> offline w2))"

definition transcribeWithWhisperWithFallback ::
  "env \<Rightarrow> string \<Rightarrow> obj \<Rightarrow> world \<Rightarrow> js outcome \<times> world" where
  "transcribeWithWhisperWithFallback e filePath options =
     fallbackChain (transcribeWithWhisperPrimary e filePath options)
       (\<lambda>w. settled (transcribeWithWhisper e filePath options w))
       (transcribeWithVosk e filePath)"

section \<open>Auxiliary notions for the statements\<close>

text \<open>A string is trimmed when it neither starts nor ends with white space.\<close>

definition trimmed :: "string \<Rightarrow> bool" where
  "trimmed t = (t = [] \<or> (\<not> isWhiteSpace (hd t) \<and> \<not> isWhiteSpace (last t)))"

text \<open>The effects a call added to the trace, and the world once the chunks are fed.\<close>

definition newEvents :: "world \<Rightarrow> world \<Rightarrow> event list" where
  "newEvents w w' = drop (length (trace w)) (trace w')"

definition fed :: "world \<Rightarrow> string list \<Rightarrow> world" where
  "fed w1 chunks = w1\<lparr>trace := trace w1 @ NewRecognizer # map AcceptWaveform chunks\<rparr>"

text \<open>
  The \<open>data\<close> arrays of the JSON bodies among the requests of a trace, and the device
  string \<open>transcribeWithWhisper\<close> computes from the options and the configuration.
\<close>

fun dataArrays :: "event list \<Rightarrow> js list list" where
  "dataArrays [] = []"
| "dataArrays (Fetch r # es) =
     (case payload r of
        JsonBody (JObj [(k, JArr d)]) \<Rightarrow> (if k = ''data'' then d # dataArrays es else dataArrays es)
      | _ \<Rightarrow> dataArrays es)"
| "dataArrays (ev # es) = dataArrays es"

text \<open>\<open>sends w w' ds\<close>: from \<open>w\<close> to \<open>w'\<close> the trace grew, by JSON bodies with the data arrays \<open>ds\<close>.\<close>

definition sends :: "world \<Rightarrow> world \<Rightarrow> js list list \<Rightarrow> bool" where
  "sends w w' ds = (\<exists>evs. trace w' = trace w @ evs \<and> dataArrays evs = ds)"

definition gradioDevice :: "env \<Rightarrow> obj \<Rightarrow> error + string" where
  "gradioDevice e options =
     normalizeGradioDevice
       (js_or (js_or (propOf options ''device'') (propOf (config e) ''whisperDevice''))
          (JStr ''cpu''))"

text \<open>
  The three requests of the batch client, for a base URL, an API name and an event
  identifier already converted to strings; the file name an upload carries for a base
  name; and the reading of one line of an event stream: a data line is one whose trimmed
  form starts with \<open>data:\<close>, and its payload is the rest, trimmed, parsed as JSON when
  that succeeds and kept as a string when not.
\<close>

definition uploadRequest :: "string \<Rightarrow> string \<Rightarrow> string \<Rightarrow> string \<Rightarrow> request" where
  "uploadRequest base name mimeType content =
     \<lparr>httpMethod = ''POST'', url = base @ ''/gradio_api/upload'',
      headers = [], payload = FormBody [BlobEntry ''files'' name mimeType content]\<rparr>"

definition uploadFileName :: "string \<Rightarrow> string" where
  "uploadFileName baseName = (if extname baseName \<noteq> [] then baseName else baseName @ ''.wav'')"

definition callRequest :: "string \<Rightarrow> string \<Rightarrow> js list \<Rightarrow> request" where
  "callRequest base name dataArray =
     \<lparr>httpMethod = ''POST'',
      url = base @ ''/gradio_api/call'' @ name,
      headers = [(''Content-Type'', ''application/json'')],
      payload = JsonBody (JObj [(''data'', JArr dataArray)])\<rparr>"

definition eventRequest :: "string \<Rightarrow> string \<Rightarrow> string \<Rightarrow> request" where
  "eventRequest base name ident =
     \<lparr>httpMethod = ''GET'',
      url = base @ ''/gradio_api/call'' @ name @ ''/'' @ ident,
      headers = [], payload = NoBody\<rparr>"

definition isDataLine :: "string \<Rightarrow> bool" where
  "isDataLine l = startsWith (trim l) ''data:''"

definition payloadOf :: "env \<Rightarrow> string \<Rightarrow> js" where
  "payloadOf e l =
     (let p = trim (drop 5 (trim l))
      in case jsonParse e p of Some v \<Rightarrow> v | None \<Rightarrow> JStr p)"







text \<open>
  White-space collapse: the words of a string (its maximal runs without white space)
  joined by single spaces. A line that the subtitle cleanup drops for its content is a
  sequence number, a time range or a banner.
\<close>

fun splitWhere :: "(char \<Rightarrow> bool) \<Rightarrow> string \<Rightarrow> string list" where
  "splitWhere P [] = [[]]"
| "splitWhere P (c # cs) =
     (if P c then [] # splitWhere P cs
      else (case splitWhere P cs of [] \<Rightarrow> [[c]] | l # ls \<Rightarrow> (c # l) # ls))"

definition wordsOf :: "string \<Rightarrow> string list" where
  "wordsOf s = filter (\<lambda>w. w \<noteq> []) (splitWhere isWhiteSpace s)"

definition collapseWhitespace :: "string \<Rightarrow> string" where
  "collapseWhitespace s = joinWith '' '' (wordsOf s)"

definition droppedLine :: "string \<Rightarrow> bool" where
  "droppedLine t = (isSequenceNumber t \<or> isTimeRange t \<or> isBanner t)"

subsection \<open>A sample environment\<close>

text \<open>
  One configuration, file system and engine to run the model on: the audio file
  \<open>/srv/clip\<close> (no extension), another with one, the engine's model directory, a stream
  of two chunks for every file but \<open>missing.wav\<close>, which is not there, and an engine that
  hears \<open>hello\<close>. \<open>sampleParse\<close> is \<open>JSON.parse\<close> on the few texts the sample servers send.
\<close>

definition sampleParse :: "string \<Rightarrow> js option" where
  "sampleParse s =
     (if s = ''{}'' then Some (JObj [])
      else if s = ''[2,[\"final\"]]'' then Some (JArr [JNum ''2'', JArr [JStr ''final'']])
      else if s = ''[\"/tmp/gradio/clip.wav\"]'' then Some (JArr [JStr ''/tmp/gradio/clip.wav''])
      else if s = ''{\"event_id\":\"e1\"}'' then Some (JObj [(''event_id'', JStr ''e1'')])
      else if s = ''{\"event_id\":\"\",\"id\":0}''
        then Some (JObj [(''event_id'', JStr []), (''id'', JNum ''0'')])
      else if s = ''{\"event_id\":{\"toString\":1}}''
        then Some (JObj [(''event_id'', JObj [(''toString'', JNum ''1'')])])
      else if s = ''{\"text\":\" ok \"}'' then Some (JObj [(''text'', JStr '' ok '')])
      else None)"

definition sampleEnv :: env where
  "sampleEnv =
     \<lparr>config = [(''vaskmodel'', JStr ''small''), (''whisperApiUrl'', JStr ''http://batch:7860/'')],
      files = (\<lambda>p. if p = ''./model/small'' then Some Directory
                    else if p = ''/srv/clip'' then Some (File ''RIFF'')
                    else if p = ''/srv/talk.MP3'' then Some (File ''ID3'')
                    else if p = ''/srv'' then Some Directory
                    else None),
      resolvePath = (\<lambda>p. ''/srv/'' @ p),
      jsonParse = sampleParse,
      readStream = (\<lambda>p. if p = ''missing.wav'' then ([], Some (IOError ''ENOENT''))
                         else ([''ab'', ''cd''], None)),
      loadModel = None,
      finalDecode = (\<lambda>cs. Inr (Some \<lparr>alternatives = Some [\<lparr>alt_text = Some '' hello ''\<rparr>]\<rparr>))\<rparr>"

definition sampleWorld :: "(error + response) list \<Rightarrow> world" where
  "sampleWorld rs = \<lparr>incoming = rs, trace = [], modelLoaded = False\<rparr>"

definition okResponse :: "string \<Rightarrow> error + response" where
  "okResponse b = Inr \<lparr>ok = True, status = ''200'', statusText = ''OK'', body = b\<rparr>"

text \<open>The replies of a batch service to upload, call and event poll.\<close>

definition sampleBatchReplies :: "(error + response) list" where
  "sampleBatchReplies =
     [okResponse ''[\"/tmp/gradio/clip.wav\"]'', okResponse ''{\"event_id\":\"e1\"}'',
      okResponse ''data: [1,[\"hi\"]]\<newline>data: [2,[\"final\"]]\<newline>'']"


section \<open>Properties of the string primitives\<close>

lemma isWhiteSpace_code: "isWhiteSpace c = (of_char c \<in> {9, 10, 11, 12, 13, 32, 160 :: nat})"
proof -
  have *: "\<And>d. (c = d) = ((of_char c :: nat) = of_char d)" by simp
  show ?thesis unfolding isWhiteSpace_def by (simp add: * del: of_char_eq_iff)
qed

lemma lowerChar_idem: "lowerChar (lowerChar c) = lowerChar c"
  by (auto simp: lowerChar_def Let_def)

lemma isWhiteSpace_lowerChar: "isWhiteSpace (lowerChar c) = isWhiteSpace c"
  by (auto simp: isWhiteSpace_code lowerChar_def Let_def)

lemma trimmed_trim: "trimmed (trim s)"
  by (metis dropWhile_idem hd_dropWhile hd_rev last_appendR last_rev
    rev.simps(1) takeWhile_dropWhile_id trim_def trimmed_def)

lemma trim_trimmed: "trimmed t \<Longrightarrow> trim t = t"
  by (metis dropWhile_eq_self_iff hd_rev rev.simps(1) rev_rev_ident trim_def
    trimmed_def)

lemma trim_idem: "trim (trim s) = trim s"
  by (simp add: trim_trimmed trimmed_trim)

lemma toLowerCase_idem: "toLowerCase (toLowerCase s) = toLowerCase s"
  by (simp add: toLowerCase_def lowerChar_idem)

lemma trim_toLowerCase: "trim (toLowerCase s) = toLowerCase (trim s)"
  by (simp add: trim_def toLowerCase_def dropWhile_map rev_map comp_def isWhiteSpace_lowerChar)

section \<open>String conversion\<close>

lemma collect_Inl: "collect rs = Inl err \<Longrightarrow> Inl err \<in> set rs"
  by (induction rs rule: collect.induct) (auto split: sum.splits)

lemma jsString_TypeError: "jsString v = Inl err \<Longrightarrow> err = TypeError"
proof (induction v arbitrary: err rule: jsString.induct)
  case (6 xs)
  then obtain x where "x \<in> set xs" and "\<not> nullish x" and "jsString x = Inl err"
    by (auto split: sum.splits if_splits dest!: collect_Inl)
  with 6 show ?case by blast
qed (auto split: if_splits)

section \<open>Model-name normalization\<close>

lemma normalized_fixed:
  "trim (toLowerCase (trim (toLowerCase s))) = trim (toLowerCase s)"
  by (simp add: trim_toLowerCase trim_idem toLowerCase_idem)

lemma normalize_consts:
  "trim (toLowerCase ''base'') = ''base''"
  "trim (toLowerCase ''medium'') = ''medium''"
  "trim (toLowerCase ''large-v2'') = ''large-v2''"
  by code_simp+

lemma normalizeWhisperModel_fixed:
  "normalizeWhisperModel x = Inr n \<Longrightarrow> trim (toLowerCase n) = n"
  by (auto simp: normalizeWhisperModel_def Let_def normalize_consts normalized_fixed
        split: if_splits sum.splits)

lemma normalizeWhisperModel_not_special:
  "normalizeWhisperModel x = Inr n \<Longrightarrow> n \<noteq> ''mid'' \<and> n \<noteq> ''large_v2'' \<and> n \<noteq> ''largev2''"
  by (auto simp: normalizeWhisperModel_def Let_def split: if_splits sum.splits)

text \<open>
  Claim C6, as stated, fails twice. \<open>normalizeWhisperModel\<close> is not idempotent: a string
  of white space only is truthy, so it passes the guard and is trimmed to the empty
  string; the empty string is falsy and maps to \<open>base\<close>. And it is not total: an object
  with an own \<open>toString\<close> property is truthy, and \<open>String(modelName)\<close> throws a TypeError
  on it.
\<close>

theorem normalizeWhisperModel_not_idempotent:
  "normalizeWhisperModel (JStr '' '') = Inr []
   \<and> normalizeWhisperModel (JStr []) = Inr ''base''
   \<and> normalizeWhisperModel (JObj [(''toString'', JNum ''1'')]) = Inl TypeError"
  by code_simp

text \<open>
  Claim C6, amended. A falsy input (\<open>undefined\<close> among them) gives \<open>base\<close>; \<open>MID\<close> gives
  \<open>medium\<close>; \<open>large_v2\<close> and \<open>largev2\<close> give \<open>large-v2\<close>. A truthy input whose conversion to
  a string succeeds (every string, whatever it holds) gives that string lowercased and
  trimmed, or the name above that this stands for; a truthy input whose conversion
  throws makes the normalization throw that error, a TypeError. A result is always
  lowercased and trimmed already, and normalizing it again leaves it unchanged whenever
  it is not the empty string.
\<close>

theorem normalizeWhisperModel_stable:
  "(\<not> truthy x \<longrightarrow> normalizeWhisperModel x = Inr ''base'')
   \<and> normalizeWhisperModel JUndefined = Inr ''base''
   \<and> normalizeWhisperModel (JStr ''MID'') = Inr ''medium''
   \<and> normalizeWhisperModel (JStr ''large_v2'') = Inr ''large-v2''
   \<and> normalizeWhisperModel (JStr ''largev2'') = Inr ''large-v2''
   \<and> (\<forall>s. truthy x \<and> jsString x = Inr s
          \<and> trim (toLowerCase s) \<notin> {''mid'', ''large_v2'', ''largev2''}
        \<longrightarrow> normalizeWhisperModel x = Inr (trim (toLowerCase s)))
   \<and> (\<forall>s. truthy x \<and> jsString x = Inr s \<and> trim (toLowerCase s) = ''mid''
        \<longrightarrow> normalizeWhisperModel x = Inr ''medium'')
   \<and> (\<forall>s. truthy x \<and> jsString x = Inr s
          \<and> trim (toLowerCase s) \<in> {''large_v2'', ''largev2''}
        \<longrightarrow> normalizeWhisperModel x = Inr ''large-v2'')
   \<and> (\<forall>err. truthy x \<and> jsString x = Inl err
        \<longrightarrow> normalizeWhisperModel x = Inl err \<and> err = TypeError)
   \<and> (\<forall>s. \<exists>n. normalizeWhisperModel (JStr s) = Inr n)
   \<and> (\<forall>n. normalizeWhisperModel x = Inr n \<longrightarrow> trim (toLowerCase n) = n)
   \<and> (\<forall>n. normalizeWhisperModel x = Inr n \<and> n \<noteq> []
        \<longrightarrow> normalizeWhisperModel (JStr n) = Inr n)"
proof -
  have base: "\<not> truthy x \<longrightarrow> normalizeWhisperModel x = Inr ''base''"
    by (simp add: normalizeWhisperModel_def)
  have undef: "normalizeWhisperModel JUndefined = Inr ''base''"
    by (simp add: normalizeWhisperModel_def)
  have mid: "normalizeWhisperModel (JStr ''MID'') = Inr ''medium''" by code_simp
  have l1: "normalizeWhisperModel (JStr ''large_v2'') = Inr ''large-v2''" by code_simp
  have l2: "normalizeWhisperModel (JStr ''largev2'') = Inr ''large-v2''" by code_simp
  have pass: "\<forall>s. truthy x \<and> jsString x = Inr s
          \<and> trim (toLowerCase s) \<notin> {''mid'', ''large_v2'', ''largev2''}
        \<longrightarrow> normalizeWhisperModel x = Inr (trim (toLowerCase s))"
    by (simp add: normalizeWhisperModel_def Let_def)
  have alias1: "\<forall>s. truthy x \<and> jsString x = Inr s \<and> trim (toLowerCase s) = ''mid''
        \<longrightarrow> normalizeWhisperModel x = Inr ''medium''"
    by (simp add: normalizeWhisperModel_def Let_def)
  have alias2: "\<forall>s. truthy x \<and> jsString x = Inr s
          \<and> trim (toLowerCase s) \<in> {''large_v2'', ''largev2''}
        \<longrightarrow> normalizeWhisperModel x = Inr ''large-v2''"
    by (auto simp: normalizeWhisperModel_def Let_def)
  have throws: "\<forall>err. truthy x \<and> jsString x = Inl err
        \<longrightarrow> normalizeWhisperModel x = Inl err \<and> err = TypeError"
    by (auto simp: normalizeWhisperModel_def dest: jsString_TypeError)
  have strings: "\<forall>s. \<exists>n. normalizeWhisperModel (JStr s) = Inr n"
    by (simp add: normalizeWhisperModel_def Let_def)
  have fixed: "\<forall>n. normalizeWhisperModel x = Inr n \<longrightarrow> trim (toLowerCase n) = n"
    using normalizeWhisperModel_fixed by blast
  have idem: "\<forall>n. normalizeWhisperModel x = Inr n \<and> n \<noteq> []
        \<longrightarrow> normalizeWhisperModel (JStr n) = Inr n"
  proof (intro allI impI)
    fix n assume h: "normalizeWhisperModel x = Inr n \<and> n \<noteq> []"
    then have fx: "trim (toLowerCase n) = n" using normalizeWhisperModel_fixed by blast
    from h have nsp: "n \<noteq> ''mid'' \<and> n \<noteq> ''large_v2'' \<and> n \<noteq> ''largev2''"
      using normalizeWhisperModel_not_special by blast
    show "normalizeWhisperModel (JStr n) = Inr n"
      using h nsp fx by (simp add: normalizeWhisperModel_def[of "JStr n"] Let_def)
  qed
  show ?thesis
    by (intro conjI)
       (fact base undef mid l1 l2 pass alias1 alias2 throws strings fixed idem)+
qed

theorem normalizeWhisperModel_stable_witness:
  "truthy (JStr '' Tiny '')
   \<and> normalizeWhisperModel (JStr '' Tiny '') = Inr ''tiny''
   \<and> normalizeWhisperModel (JStr ''tiny'') = Inr ''tiny''
   \<and> normalizeWhisperModel JNull = Inr ''base''
   \<and> normalizeWhisperModel (JObj [(''toString'', JNum ''1'')]) = Inl TypeError"
proof -
  let ?bad = "JObj [(''toString'', JNum ''1'')]"
  have v: "normalizeWhisperModel (JStr '' Tiny '') = Inr ''tiny''" by code_simp
  have n: "\<not> truthy JNull" by simp
  have b: "truthy ?bad \<and> jsString ?bad = Inl TypeError" by code_simp
  have ne: "''tiny'' \<noteq> []" by simp
  from normalizeWhisperModel_stable [of "JStr '' Tiny ''"] v ne
  have "normalizeWhisperModel (JStr ''tiny'') = Inr ''tiny''" by blast
  moreover from normalizeWhisperModel_stable [of JNull] n
  have "normalizeWhisperModel JNull = Inr ''base''" by blast
  moreover from normalizeWhisperModel_stable [of ?bad] b
  have "normalizeWhisperModel ?bad = Inl TypeError" by blast
  ultimately show ?thesis using v by simp
qed

section \<open>Orchestrator\<close>

text \<open>
  What the chain does for any three backends: the first that resolves gives the result,
  in the world it left, so the later ones did not run; a rejection passes to the next;
  when both Primary and Remote Batch reject, the outcome is Offline's; and a backend that
  ends the process ends the chain.
\<close>

lemma fallbackChain_cases:
  "(fst (primary w) = Resolved v
      \<longrightarrow> fallbackChain primary batch offline w = (Resolved v, snd (primary w)))
   \<and> (fst (primary w) = ProcessExit n
      \<longrightarrow> fallbackChain primary batch offline w = (ProcessExit n, snd (primary w)))
   \<and> (primary w = (Rejected e1, w1) \<and> fst (batch w1) = Resolved v
      \<longrightarrow> fallbackChain primary batch offline w = (Resolved v, snd (batch w1)))
   \<and> (primary w = (Rejected e1, w1) \<and> batch w1 = (Rejected e2, w2)
      \<longrightarrow> fallbackChain primary batch offline w = offline w2)"
proof -
  have a: "fst (primary w) = Resolved v
      \<longrightarrow> fallbackChain primary batch offline w = (Resolved v, snd (primary w))"
    by (cases "primary w") (simp add: fallbackChain_def)
  have b: "fst (primary w) = ProcessExit n
      \<longrightarrow> fallbackChain primary batch offline w = (ProcessExit n, snd (primary w))"
    by (cases "primary w") (simp add: fallbackChain_def)
  have c: "primary w = (Rejected e1, w1) \<and> fst (batch w1) = Resolved v
      \<longrightarrow> fallbackChain primary batch offline w = (Resolved v, snd (batch w1))"
    by (cases "batch w1") (simp add: fallbackChain_def)
  have d: "primary w = (Rejected e1, w1) \<and> batch w1 = (Rejected e2, w2)
      \<longrightarrow> fallbackChain primary batch offline w = offline w2"
    by (simp add: fallbackChain_def)
  show ?thesis using a b c d by blast
qed

text \<open>
  Primary ends the process whenever the audio file cannot be opened, whatever the options,
  the configuration and the network are.
\<close>

lemma primary_unopened:
  "files e (resolvePath e filePath) = None \<Longrightarrow>
     fst (transcribeWithWhisperPrimary e filePath options w) = ProcessExit 1"
  by (simp add: transcribeWithWhisperPrimary_def Let_def unheard_def split: sum.splits)

lemma fallback_unopened:
  "files e (resolvePath e filePath) = None \<Longrightarrow>
     fst (transcribeWithWhisperWithFallback e filePath options w) = ProcessExit 1"
  using fallbackChain_cases
      [where primary = "transcribeWithWhisperPrimary e filePath options" and w = w and n = 1]
    primary_unopened [of e filePath options w]
  by (simp add: transcribeWithWhisperWithFallback_def)

text \<open>
  Claim C1 fails on the code, by a defect of the code. For an audio file that is not
  there, Primary's read stream emits an \<open>error\<close> that nothing listens for: the process
  ends with the request to the primary service in flight. Neither Remote Batch nor
  Offline is tried, and the caller gets no rejection at all, where the claim has the
  chain go on to Offline and the caller get Offline's error, which here would be the
  stream's \<open>ENOENT\<close>. The offline client listens for that event; the primary client does
  not.
\<close>

theorem fallback_missing_file_ends_process:
  "fst (transcribeWithWhisperWithFallback sampleEnv ''missing.wav'' [] (sampleWorld []))
     = ProcessExit 1
   \<and> trace (snd (transcribeWithWhisperWithFallback sampleEnv ''missing.wav'' [] (sampleWorld [])))
     = [Fetch \<lparr>httpMethod = ''POST'', url = ''http://localhost:8080/v1/audio/transcriptions'',
                headers = [],
                payload = FormBody [FieldEntry ''file'' ''[object Object]'',
                                    FieldEntry ''model'' ''base'']\<rparr>]
   \<and> fst (transcribeWithVosk sampleEnv ''missing.wav'' (sampleWorld []))
     = Rejected (IOError ''ENOENT'')"
  by code_simp

section \<open>Offline recognizer\<close>

lemma feed_chunks:
  "foldl (\<lambda>v chunk. onData chunk v) w cs = w\<lparr>trace := trace w @ map AcceptWaveform cs\<rparr>"
  by (induction cs arbitrary: w) (simp_all add: onData_def emit_def)

lemma voskLoader_trace: "voskLoader e w = (r, w1) \<Longrightarrow> trace w1 = trace w"
  by (auto simp: voskLoader_def split: if_splits option.splits)

lemma count_AcceptWaveform: "count_list (map AcceptWaveform cs) Free = 0"
  by (induction cs) simp_all

lemma transcribeWithVosk_run:
  assumes "voskLoader e w = (Resolved u, w1)" and "readStream e filePath = (chunks, failure)"
  shows "transcribeWithVosk e filePath w =
           (case failure of None \<Rightarrow> onEnd e chunks (fed w1 chunks)
                          | Some err \<Rightarrow> onError err (fed w1 chunks))"
  using assms
  by (cases failure) (simp_all add: transcribeWithVosk_def feed_chunks emit_def fed_def Let_def)

lemma sample_loaded:
  "voskLoader sampleEnv (sampleWorld []) = (Resolved (), (sampleWorld [])\<lparr>modelLoaded := True\<rparr>)"
  by (simp add: voskLoader_def sampleEnv_def sampleWorld_def existsSync_def MODEL_PATH_def
      propOf_def)

text \<open>
  Claim C7. Once the model is loaded and the session open, the offline call ends in one
  of three ways, and in each the session is released exactly once, before the promise is
  settled: the stream ends and the final decode succeeds (final result, release,
  resolve); the stream ends and the final decode throws (final result, release, reject
  with that error); the stream fails (release, reject with that error). The error the
  caller gets is the decode or stream error itself.
\<close>

theorem offline_session_released_once:
  assumes loaded: "voskLoader e w = (Resolved u, w1)"
      and stream: "readStream e filePath = (chunks, failure)"
  shows "(failure = None \<and> finalDecode e chunks = Inr fr \<longrightarrow>
            (\<exists>v. fst (transcribeWithVosk e filePath w) = Resolved v
               \<and> newEvents w (snd (transcribeWithVosk e filePath w))
                   = NewRecognizer # map AcceptWaveform chunks @ [FinalResult, Free, Resolve v]))
       \<and> (failure = None \<and> finalDecode e chunks = Inl err \<longrightarrow>
            fst (transcribeWithVosk e filePath w) = Rejected err
            \<and> newEvents w (snd (transcribeWithVosk e filePath w))
                = NewRecognizer # map AcceptWaveform chunks @ [FinalResult, Free, Reject err])
       \<and> (failure = Some err \<longrightarrow>
            fst (transcribeWithVosk e filePath w) = Rejected err
            \<and> newEvents w (snd (transcribeWithVosk e filePath w))
                = NewRecognizer # map AcceptWaveform chunks @ [Free, Reject err])
       \<and> count_list (newEvents w (snd (transcribeWithVosk e filePath w))) Free = 1"
proof -
  have tr: "trace w1 = trace w" using loaded by (rule voskLoader_trace)
  note run = transcribeWithVosk_run [OF loaded stream]
  have ok: "failure = None \<and> finalDecode e chunks = Inr fr \<longrightarrow>
            (\<exists>v. fst (transcribeWithVosk e filePath w) = Resolved v
               \<and> newEvents w (snd (transcribeWithVosk e filePath w))
                   = NewRecognizer # map AcceptWaveform chunks @ [FinalResult, Free, Resolve v])"
    by (simp add: run onEnd_def fed_def emit_def newEvents_def tr Let_def)
  have bad: "failure = None \<and> finalDecode e chunks = Inl err \<longrightarrow>
            fst (transcribeWithVosk e filePath w) = Rejected err
            \<and> newEvents w (snd (transcribeWithVosk e filePath w))
                = NewRecognizer # map AcceptWaveform chunks @ [FinalResult, Free, Reject err]"
    by (simp add: run onEnd_def fed_def emit_def newEvents_def tr Let_def)
  have io: "failure = Some err \<longrightarrow>
            fst (transcribeWithVosk e filePath w) = Rejected err
            \<and> newEvents w (snd (transcribeWithVosk e filePath w))
                = NewRecognizer # map AcceptWaveform chunks @ [Free, Reject err]"
    by (simp add: run onError_def fed_def emit_def newEvents_def tr Let_def)
  have once: "count_list (newEvents w (snd (transcribeWithVosk e filePath w))) Free = 1"
    by (cases failure; cases "finalDecode e chunks")
       (simp_all add: run onEnd_def onError_def fed_def emit_def newEvents_def tr Let_def
          count_AcceptWaveform)
  show ?thesis using ok bad io once by blast
qed

theorem offline_session_released_once_witness:
  "fst (transcribeWithVosk (sampleEnv\<lparr>finalDecode := \<lambda>cs. Inl (EngineError ''decode'')\<rparr>)
          ''clip'' (sampleWorld [])) = Rejected (EngineError ''decode'')
   \<and> newEvents (sampleWorld [])
        (snd (transcribeWithVosk (sampleEnv\<lparr>finalDecode := \<lambda>cs. Inl (EngineError ''decode'')\<rparr>)
          ''clip'' (sampleWorld [])))
       = [NewRecognizer, AcceptWaveform ''ab'', AcceptWaveform ''cd'', FinalResult, Free,
          Reject (EngineError ''decode'')]
   \<and> fst (transcribeWithVosk (sampleEnv\<lparr>readStream := \<lambda>p. ([''ab''], Some (IOError ''EIO''))\<rparr>)
          ''clip'' (sampleWorld [])) = Rejected (IOError ''EIO'')
   \<and> newEvents (sampleWorld [])
        (snd (transcribeWithVosk (sampleEnv\<lparr>readStream := \<lambda>p. ([''ab''], Some (IOError ''EIO''))\<rparr>)
          ''clip'' (sampleWorld [])))
       = [NewRecognizer, AcceptWaveform ''ab'', Free, Reject (IOError ''EIO'')]
   \<and> count_list (newEvents (sampleWorld [])
        (snd (transcribeWithVosk sampleEnv ''clip'' (sampleWorld [])))) Free = 1"
proof -
  let ?w = "sampleWorld []"
  let ?e1 = "sampleEnv\<lparr>finalDecode := \<lambda>cs. Inl (EngineError ''decode'')\<rparr>"
  let ?e2 = "sampleEnv\<lparr>readStream := \<lambda>p. ([''ab''], Some (IOError ''EIO''))\<rparr>"
  have l1: "voskLoader ?e1 ?w = (Resolved (), ?w\<lparr>modelLoaded := True\<rparr>)"
    by (simp add: voskLoader_def sampleEnv_def sampleWorld_def existsSync_def MODEL_PATH_def
        propOf_def)
  have l2: "voskLoader ?e2 ?w = (Resolved (), ?w\<lparr>modelLoaded := True\<rparr>)"
    by (simp add: voskLoader_def sampleEnv_def sampleWorld_def existsSync_def MODEL_PATH_def
        propOf_def)
  have s1: "readStream ?e1 ''clip'' = ([''ab'', ''cd''], None)" by (simp add: sampleEnv_def)
  have s2: "readStream ?e2 ''clip'' = ([''ab''], Some (IOError ''EIO''))" by simp
  have s0: "readStream sampleEnv ''clip'' = ([''ab'', ''cd''], None)" by (simp add: sampleEnv_def)
  have d1: "finalDecode ?e1 [''ab'', ''cd''] = Inl (EngineError ''decode'')" by simp
  from offline_session_released_once [OF l1 s1, of _ "EngineError ''decode''"] d1
  have "fst (transcribeWithVosk ?e1 ''clip'' ?w) = Rejected (EngineError ''decode'')
        \<and> newEvents ?w (snd (transcribeWithVosk ?e1 ''clip'' ?w))
            = NewRecognizer # map AcceptWaveform [''ab'', ''cd'']
                @ [FinalResult, Free, Reject (EngineError ''decode'')]"
    by blast
  moreover from offline_session_released_once [OF l2 s2, of _ "IOError ''EIO''"]
  have "fst (transcribeWithVosk ?e2 ''clip'' ?w) = Rejected (IOError ''EIO'')
        \<and> newEvents ?w (snd (transcribeWithVosk ?e2 ''clip'' ?w))
            = NewRecognizer # map AcceptWaveform [''ab''] @ [Free, Reject (IOError ''EIO'')]"
    by blast
  moreover from offline_session_released_once [OF sample_loaded s0]
  have "count_list (newEvents ?w (snd (transcribeWithVosk sampleEnv ''clip'' ?w))) Free = 1"
    by blast
  ultimately show ?thesis by simp
qed

text \<open>
  Claim C8. When the final decode succeeds, the call resolves: with the trimmed text of
  the best alternative when that is not empty, and with \<open>false\<close> when it is empty or
  absent. \<open>false\<close> is a resolved value, so it is no rejection, and it is no string.
\<close>

theorem offline_no_speech_sentinel:
  assumes loaded: "voskLoader e w = (Resolved u, w1)"
      and stream: "readStream e filePath = (chunks, None)"
      and decoded: "finalDecode e chunks = Inr fr"
  shows "(bestText fr \<noteq> [] \<longrightarrow>
            fst (transcribeWithVosk e filePath w) = Resolved (JStr (bestText fr)))
       \<and> (bestText fr = [] \<longrightarrow>
            fst (transcribeWithVosk e filePath w) = Resolved (JBool False)
            \<and> (\<forall>err. fst (transcribeWithVosk e filePath w) \<noteq> Rejected err)
            \<and> (\<forall>t. fst (transcribeWithVosk e filePath w) \<noteq> Resolved (JStr t)))
       \<and> (\<forall>r a as t. fr = Some r \<and> alternatives r = Some (a # as) \<and> alt_text a = Some t
            \<longrightarrow> bestText fr = trim t)"
proof -
  note run = transcribeWithVosk_run [OF loaded stream]
  have heard: "bestText fr \<noteq> [] \<longrightarrow>
            fst (transcribeWithVosk e filePath w) = Resolved (JStr (bestText fr))"
    using decoded by (simp add: run onEnd_def Let_def)
  have none: "bestText fr = [] \<longrightarrow> fst (transcribeWithVosk e filePath w) = Resolved (JBool False)"
    using decoded by (simp add: run onEnd_def Let_def)
  have best: "\<forall>r a as t. fr = Some r \<and> alternatives r = Some (a # as) \<and> alt_text a = Some t
            \<longrightarrow> bestText fr = trim t"
    by (simp add: bestText_def)
  show ?thesis using heard none best by simp
qed

theorem offline_no_speech_sentinel_witness:
  "fst (transcribeWithVosk sampleEnv ''clip'' (sampleWorld [])) = Resolved (JStr ''hello'')
   \<and> fst (transcribeWithVosk
            (sampleEnv\<lparr>finalDecode :=
               \<lambda>cs. Inr (Some \<lparr>alternatives = Some [\<lparr>alt_text = Some ''  ''\<rparr>]\<rparr>)\<rparr>)
            ''clip'' (sampleWorld [])) = Resolved (JBool False)"
proof -
  let ?w = "sampleWorld []"
  let ?silent = "Some \<lparr>alternatives = Some [\<lparr>alt_text = Some ''  ''\<rparr>]\<rparr>"
  let ?heard = "Some \<lparr>alternatives = Some [\<lparr>alt_text = Some '' hello ''\<rparr>]\<rparr>"
  let ?e1 = "sampleEnv\<lparr>finalDecode := \<lambda>cs. Inr ?silent\<rparr>"
  have l1: "voskLoader ?e1 ?w = (Resolved (), ?w\<lparr>modelLoaded := True\<rparr>)"
    by (simp add: voskLoader_def sampleEnv_def sampleWorld_def existsSync_def MODEL_PATH_def
        propOf_def)
  have s0: "readStream sampleEnv ''clip'' = ([''ab'', ''cd''], None)" by (simp add: sampleEnv_def)
  have s1: "readStream ?e1 ''clip'' = ([''ab'', ''cd''], None)" by (simp add: sampleEnv_def)
  have d0: "finalDecode sampleEnv [''ab'', ''cd''] = Inr ?heard" by (simp add: sampleEnv_def)
  have d1: "finalDecode ?e1 [''ab'', ''cd''] = Inr ?silent" by simp
  have b0: "bestText ?heard = ''hello''" by code_simp
  have b1: "bestText ?silent = []" by code_simp
  from offline_no_speech_sentinel [OF sample_loaded s0 d0] b0
  have "fst (transcribeWithVosk sampleEnv ''clip'' ?w) = Resolved (JStr ''hello'')" by simp
  moreover from offline_no_speech_sentinel [OF l1 s1 d1] b1
  have "fst (transcribeWithVosk ?e1 ''clip'' ?w) = Resolved (JBool False)" by simp
  ultimately show ?thesis by simp
qed

section \<open>Remote batch service: the requests sent\<close>

lemma dataArrays_append: "dataArrays (xs @ ys) = dataArrays xs @ dataArrays ys"
  by (induction xs rule: dataArrays.induct)
     (auto split: req_body.splits js.splits list.splits prod.splits)

lemma sends_refl: "sends w w []"
  by (simp add: sends_def)

lemma sends_trans: "sends w w1 a \<Longrightarrow> sends w1 w2 b \<Longrightarrow> sends w w2 (a @ b)"
  by (auto simp: sends_def dataArrays_append)

lemma sends_newEvents: "sends w w' ds \<Longrightarrow> dataArrays (newEvents w w') = ds"
  by (auto simp: sends_def newEvents_def)

lemma fetch_sends: "fetch req w = (r, w1) \<Longrightarrow> sends w w1 (dataArrays [Fetch req])"
  by (auto simp: fetch_def emit_def sends_def split: list.splits)

lemma upload_sends: "uploadToGradio e a f w = (r, w1) \<Longrightarrow> sends w w1 []"
  unfolding uploadToGradio_def Let_def
  by (auto split: sum.splits prod.splits if_splits dest!: fetch_sends simp: sends_refl)

lemma call_sends: "callGradio e a n d w = (r, w1) \<Longrightarrow> sends w w1 [] \<or> sends w w1 [d]"
  unfolding callGradio_def Let_def
  by (auto split: sum.splits prod.splits if_splits dest!: fetch_sends dest: sends_trans
        simp: sends_refl)

lemma extract_sends: "extractWhisperTextFromResult e res w = (r, w1) \<Longrightarrow> sends w w1 []"
  unfolding extractWhisperTextFromResult_def
  by (auto split: sum.splits prod.splits if_splits dest!: fetch_sends simp: sends_refl)

lemma whisperData_length: "length (whisperData o1 m d p) = 54"
  by (simp add: whisperData_def)

lemma whisperData_device: "whisperData o1 m d p ! 45 = JStr d" "whisperData o1 m d p ! 50 = JStr d"
  by (simp_all add: whisperData_def)

lemma whisperData_other:
  "whisperData o1 m d' p = (whisperData o1 m d p)[45 := JStr d', 50 := JStr d']"
  by (simp add: whisperData_def)

lemma whisper_sends:
  assumes run: "transcribeWithWhisper e f opts w = (r, w')"
  shows "sends w w' []
         \<or> (\<exists>m device p. gradioDevice e opts = Inr device
                \<and> sends w w' [whisperData opts m device p])"
proof -
  let ?url = "propOf (config e) ''whisperApiUrl''"
  let ?model = "normalizeWhisperModel
                 (js_or (js_or (propOf opts ''model'') (propOf (config e) ''whisperModel''))
                    (JStr ''base''))"
  let ?n = "js_or (js_or (propOf opts ''apiName'') (propOf (config e) ''whisperApiName''))
                           (JStr ''/transcribe_file'')"
  show ?thesis
  proof (cases "truthy ?url")
    case False
    with run have "w' = w" by (simp add: transcribeWithWhisper_def Let_def)
    then show ?thesis by (simp add: sends_refl)
  next
    case url: True
    show ?thesis
    proof (cases ?model)
      case (Inl err)
      with run url have "w' = w" by (simp add: transcribeWithWhisper_def Let_def)
      then show ?thesis by (simp add: sends_refl)
    next
      case model: (Inr m)
      show ?thesis
      proof (cases "gradioDevice e opts")
        case (Inl err)
        with run url model have "w' = w"
          by (simp add: transcribeWithWhisper_def Let_def gradioDevice_def)
        then show ?thesis by (simp add: sends_refl)
      next
        case dev: (Inr device)
        obtain r1 w1 where up: "uploadToGradio e ?url f w = (r1, w1)" by force
        from up have s1: "sends w w1 []" by (rule upload_sends)
        show ?thesis
        proof (cases r1)
          case (Inl err)
          with run url model dev up have "w' = w1"
            by (simp add: transcribeWithWhisper_def Let_def gradioDevice_def)
          with s1 show ?thesis by simp
        next
          case path: (Inr p)
          let ?d = "whisperData opts m device p"
          obtain r2 w2 where call: "callGradio e ?url ?n ?d w1 = (r2, w2)" by force
          from call_sends [OF call] sends_trans [OF s1]
          have s12: "sends w w2 [] \<or> sends w w2 [?d]" by fastforce
          show ?thesis
          proof (cases r2)
            case (Inl err)
            with run url model dev up path call have "w' = w2"
              by (simp add: transcribeWithWhisper_def Let_def gradioDevice_def)
            with s12 dev show ?thesis by blast
          next
            case res: (Inr result)
            obtain r3 w3 where ex: "extractWhisperTextFromResult e result w2 = (r3, w3)"
              by force
            from ex have s3: "sends w2 w3 []" by (rule extract_sends)
            from run url model dev up path call res ex have "w' = w3"
              by (cases r3) (simp_all add: transcribeWithWhisper_def Let_def gradioDevice_def)
            moreover from s12 s3 have "sends w w3 [] \<or> sends w w3 [?d]"
              using sends_trans by fastforce
            ultimately show ?thesis using dev by blast
          qed
        qed
      qed
    qed
  qed
qed

text \<open>
  Claim C2, as stated, fails on the count: the data array has 54 elements, not 53. Here
  the sample call sends one JSON body, and its array has 54 elements.
\<close>

theorem whisper_data_not_53:
  "map length (dataArrays (newEvents (sampleWorld sampleBatchReplies)
      (snd (transcribeWithWhisper sampleEnv ''clip'' [] (sampleWorld sampleBatchReplies)))))
   = [54]
   \<and> map length (dataArrays (newEvents (sampleWorld sampleBatchReplies)
      (snd (transcribeWithWhisper sampleEnv ''clip'' [] (sampleWorld sampleBatchReplies)))))
   \<noteq> [53]"
  by code_simp

text \<open>
  Claim C2, amended. Every data array that \<open>transcribeWithWhisper\<close> sends in a JSON body
  is the parameter vector: it has exactly 54 elements at fixed positions, and positions
  45 and 50 (counting from 0) both carry the normalized device string, which device
  normalization has then returned. The device reaches no other position: the vector for
  another device differs at these two positions only.
\<close>

theorem whisper_data_vector:
  "(\<forall>d \<in> set (dataArrays (newEvents w (snd (transcribeWithWhisper e filePath options w)))).
       length d = 54
       \<and> (\<exists>device. gradioDevice e options = Inr device
              \<and> d ! 45 = JStr device \<and> d ! 50 = JStr device
              \<and> (\<exists>m p. d = whisperData options m device p)))
   \<and> whisperData options m device' p
       = (whisperData options m device p)[45 := JStr device', 50 := JStr device']"
proof -
  obtain r w' where run: "transcribeWithWhisper e filePath options w = (r, w')" by force
  from whisper_sends [OF run]
  have "dataArrays (newEvents w w') = []
        \<or> (\<exists>m device p. gradioDevice e options = Inr device
               \<and> dataArrays (newEvents w w') = [whisperData options m device p])"
    by (auto dest: sends_newEvents)
  then have "\<forall>d \<in> set (dataArrays (newEvents w w')).
       length d = 54
       \<and> (\<exists>device. gradioDevice e options = Inr device
              \<and> d ! 45 = JStr device \<and> d ! 50 = JStr device
              \<and> (\<exists>m p. d = whisperData options m device p))"
  proof (elim disjE exE conjE)
    assume "dataArrays (newEvents w w') = []"
    then show ?thesis by simp
  next
    fix m0 device0 p0
    assume dev: "gradioDevice e options = Inr device0"
       and one: "dataArrays (newEvents w w') = [whisperData options m0 device0 p0]"
    have "\<exists>m p. whisperData options m0 device0 p0 = whisperData options m device0 p"
      by blast
    then show ?thesis
      unfolding one using dev by (simp add: whisperData_length whisperData_device)
  qed
  with run show ?thesis using whisperData_other by simp
qed

lemma sample_batch_data:
  "dataArrays (newEvents (sampleWorld sampleBatchReplies)
      (snd (transcribeWithWhisper sampleEnv ''clip'' [(''device'', JStr ''GPU'')]
              (sampleWorld sampleBatchReplies))))
   = [whisperData [(''device'', JStr ''GPU'')] ''base'' ''cuda'' (JStr ''/tmp/gradio/clip.wav'')]"
  by code_simp

theorem whisper_data_vector_witness:
  "dataArrays (newEvents (sampleWorld sampleBatchReplies)
      (snd (transcribeWithWhisper sampleEnv ''clip'' [(''device'', JStr ''GPU'')]
              (sampleWorld sampleBatchReplies))))
     = [whisperData [(''device'', JStr ''GPU'')] ''base'' ''cuda'' (JStr ''/tmp/gradio/clip.wav'')]
   \<and> gradioDevice sampleEnv [(''device'', JStr ''GPU'')] = Inr ''cuda''
   \<and> length (whisperData [(''device'', JStr ''GPU'')] ''base'' ''cuda''
         (JStr ''/tmp/gradio/clip.wav'')) = 54
   \<and> whisperData [(''device'', JStr ''GPU'')] ''base'' ''cuda'' (JStr ''/tmp/gradio/clip.wav'') ! 45
       = JStr ''cuda''
   \<and> whisperData [(''device'', JStr ''GPU'')] ''base'' ''cuda'' (JStr ''/tmp/gradio/clip.wav'') ! 50
       = JStr ''cuda''"
proof -
  let ?o = "[(''device'', JStr ''GPU'')]"
  let ?d = "whisperData ?o ''base'' ''cuda'' (JStr ''/tmp/gradio/clip.wav'')"
  have dev: "gradioDevice sampleEnv ?o = Inr ''cuda''" by code_simp
  have mem: "?d \<in> set (dataArrays (newEvents (sampleWorld sampleBatchReplies)
      (snd (transcribeWithWhisper sampleEnv ''clip'' ?o (sampleWorld sampleBatchReplies)))))"
    by (simp add: sample_batch_data)
  from whisper_data_vector [of "sampleWorld sampleBatchReplies" sampleEnv "''clip''" ?o] mem
  have "length ?d = 54
        \<and> (\<exists>device. gradioDevice sampleEnv ?o = Inr device
               \<and> ?d ! 45 = JStr device \<and> ?d ! 50 = JStr device)"
    by blast
  with dev sample_batch_data show ?thesis by auto
qed

section \<open>Remote batch service: the call and event-poll steps\<close>

lemma fetch_reply:
  "incoming w = r # rs \<Longrightarrow> fetch req w = (r, w\<lparr>incoming := rs, trace := trace w @ [Fetch req]\<rparr>)"
  by (simp add: fetch_def emit_def)

lemma newEvents_append [simp]: "newEvents w (w'\<lparr>trace := trace w @ evs\<rparr>) = evs"
  by (simp add: newEvents_def)

lemma callUrlOf_ok:
  "normalizeBaseUrl apiUrl = Inr base \<Longrightarrow> jsString apiName = Inr name
   \<Longrightarrow> callUrlOf apiUrl apiName = Inr (base @ ''/gradio_api/call'' @ name)"
  by (simp add: callUrlOf_def)

lemma eventUrlOf_ok:
  "normalizeBaseUrl apiUrl = Inr base \<Longrightarrow> jsString apiName = Inr name
   \<Longrightarrow> eventUrlOf apiUrl apiName eventId =
         (case jsString eventId of
            Inl err \<Rightarrow> Inl err
          | Inr ident \<Rightarrow> Inr (base @ ''/gradio_api/call'' @ name @ ''/'' @ ident))"
  by (simp add: eventUrlOf_def callUrlOf_ok split: sum.splits)

lemma callGradio_answered:
  assumes "incoming w = Inr response # rest" and "ok response" and "json e response = Inr result"
      and "normalizeBaseUrl apiUrl = Inr base" and "jsString apiName = Inr name"
  shows "callGradio e apiUrl apiName dataArray w =
     (let w1 = w\<lparr>incoming := rest, trace := trace w @ [Fetch (callRequest base name dataArray)]\<rparr>
      in case eventIdOf result of
           Inl err \<Rightarrow> (Inl err, w1)
         | Inr eventId \<Rightarrow>
             if \<not> truthy eventId then (Inl (Error ''Gradio call returned no event id.''), w1)
             else (case jsString eventId of
                     Inl err \<Rightarrow> (Inl err, w1)
                   | Inr ident \<Rightarrow>
                      (case fetch (eventRequest base name ident) w1 of
                         (Inl err, w2) \<Rightarrow> (Inl err, w2)
                       | (Inr eventResponse, w2) \<Rightarrow>
                           if \<not> ok eventResponse
                           then (Inl (httpFailure ''Gradio event failed: '' eventResponse), w2)
                           else (eventPayload e (body eventResponse), w2))))"
  using assms
  by (simp add: callGradio_def Let_def fetch_reply callRequest_def eventRequest_def
        callUrlOf_ok eventUrlOf_ok split: sum.splits)

text \<open>
  Claim C9. When the call's POST (to the URL formed from the base URL and the API name)
  is answered with a JSON value that is an object, the event identifier is the first
  truthy one of its fields \<open>event_id\<close>, \<open>eventId\<close>, \<open>id\<close>. When none is truthy (absent, empty
  string, 0, \<open>null\<close> or \<open>false\<close>) the client throws the missing-event-id error and the POST
  is the only request it sent: no event-poll GET. When one is truthy and has a string
  form, the GET goes to the URL ending in it; when it has none (an object whose
  \<open>toString\<close> cannot be called), the client throws a \<open>TypeError\<close> and again the POST is the
  only request. A falsy \<open>event_id\<close> field gives the same identifier as no \<open>event_id\<close>
  field.
\<close>

theorem event_id_selection:
  assumes posted: "incoming w = Inr response # rest"
      and good: "ok response"
      and parsed: "json e response = Inr result"
      and object: "\<not> nullish result"
      and base: "normalizeBaseUrl apiUrl = Inr base"
      and name: "jsString apiName = Inr name"
  shows "eventIdOf result =
           Inr (if truthy (field result ''event_id'') then field result ''event_id''
                else if truthy (field result ''eventId'') then field result ''eventId''
                else field result ''id'')
       \<and> (\<not> truthy (field result ''event_id'') \<and> \<not> truthy (field result ''eventId'')
            \<and> \<not> truthy (field result ''id'') \<longrightarrow>
              fst (callGradio e apiUrl apiName dataArray w)
                = Inl (Error ''Gradio call returned no event id.'')
              \<and> newEvents w (snd (callGradio e apiUrl apiName dataArray w))
                  = [Fetch (callRequest base name dataArray)])
       \<and> (\<forall>eventId ident.
              eventIdOf result = Inr eventId \<and> truthy eventId \<and> jsString eventId = Inr ident \<longrightarrow>
              newEvents w (snd (callGradio e apiUrl apiName dataArray w))
                = [Fetch (callRequest base name dataArray),
                   Fetch (eventRequest base name ident)])
       \<and> (\<forall>eventId err.
              eventIdOf result = Inr eventId \<and> truthy eventId \<and> jsString eventId = Inl err \<longrightarrow>
              fst (callGradio e apiUrl apiName dataArray w) = Inl TypeError
              \<and> newEvents w (snd (callGradio e apiUrl apiName dataArray w))
                  = [Fetch (callRequest base name dataArray)])
       \<and> (\<forall>v kvs. \<not> truthy v \<and> map_of kvs ''event_id'' = None \<longrightarrow>
              eventIdOf (JObj ((''event_id'', v) # kvs)) = eventIdOf (JObj kvs))"
proof -
  note run = callGradio_answered [OF posted good parsed base name]
  have sel: "eventIdOf result =
           Inr (if truthy (field result ''event_id'') then field result ''event_id''
                else if truthy (field result ''eventId'') then field result ''eventId''
                else field result ''id'')"
    using object by (simp add: eventIdOf_def js_or_def)
  have none: "\<not> truthy (field result ''event_id'') \<and> \<not> truthy (field result ''eventId'')
            \<and> \<not> truthy (field result ''id'') \<longrightarrow>
              fst (callGradio e apiUrl apiName dataArray w)
                = Inl (Error ''Gradio call returned no event id.'')
              \<and> newEvents w (snd (callGradio e apiUrl apiName dataArray w))
                  = [Fetch (callRequest base name dataArray)]"
    by (simp add: run sel Let_def)
  have some: "\<forall>eventId ident.
              eventIdOf result = Inr eventId \<and> truthy eventId \<and> jsString eventId = Inr ident \<longrightarrow>
              newEvents w (snd (callGradio e apiUrl apiName dataArray w))
                = [Fetch (callRequest base name dataArray),
                   Fetch (eventRequest base name ident)]"
    by (auto simp: run Let_def fetch_def emit_def newEvents_def
          split: list.splits sum.splits prod.splits)
  have thrown: "\<forall>eventId err.
              eventIdOf result = Inr eventId \<and> truthy eventId \<and> jsString eventId = Inl err \<longrightarrow>
              fst (callGradio e apiUrl apiName dataArray w) = Inl TypeError
              \<and> newEvents w (snd (callGradio e apiUrl apiName dataArray w))
                  = [Fetch (callRequest base name dataArray)]"
    by (auto simp: run Let_def dest: jsString_TypeError)
  have empty: "\<forall>v kvs. \<not> truthy v \<and> map_of kvs ''event_id'' = None \<longrightarrow>
              eventIdOf (JObj ((''event_id'', v) # kvs)) = eventIdOf (JObj kvs)"
    by (simp add: eventIdOf_def js_or_def propOf_def)
  show ?thesis using sel none some thrown empty by blast
qed

theorem event_id_selection_witness:
  "fst (callGradio sampleEnv (JStr ''http://batch:7860/'') (JStr ''/transcribe_file'') []
          (sampleWorld [okResponse ''{\"event_id\":\"\",\"id\":0}'']))
     = Inl (Error ''Gradio call returned no event id.'')
   \<and> newEvents (sampleWorld [okResponse ''{\"event_id\":\"\",\"id\":0}''])
        (snd (callGradio sampleEnv (JStr ''http://batch:7860/'') (JStr ''/transcribe_file'') []
                (sampleWorld [okResponse ''{\"event_id\":\"\",\"id\":0}''])))
       = [Fetch (callRequest ''http://batch:7860'' ''/transcribe_file'' [])]
   \<and> newEvents (sampleWorld [okResponse ''{\"event_id\":\"e1\"}''])
        (snd (callGradio sampleEnv (JStr ''http://batch:7860/'') (JStr ''/transcribe_file'') []
                (sampleWorld [okResponse ''{\"event_id\":\"e1\"}''])))
       = [Fetch (callRequest ''http://batch:7860'' ''/transcribe_file'' []),
          Fetch (eventRequest ''http://batch:7860'' ''/transcribe_file'' ''e1'')]
   \<and> fst (callGradio sampleEnv (JStr ''http://batch:7860/'') (JStr ''/transcribe_file'') []
          (sampleWorld [okResponse ''{\"event_id\":{\"toString\":1}}'']))
     = Inl TypeError
   \<and> newEvents (sampleWorld [okResponse ''{\"event_id\":{\"toString\":1}}''])
        (snd (callGradio sampleEnv (JStr ''http://batch:7860/'') (JStr ''/transcribe_file'') []
                (sampleWorld [okResponse ''{\"event_id\":{\"toString\":1}}''])))
       = [Fetch (callRequest ''http://batch:7860'' ''/transcribe_file'' [])]"
proof -
  let ?u = "JStr ''http://batch:7860/''"
  let ?n = "JStr ''/transcribe_file''"
  let ?r0 = "\<lparr>ok = True, status = ''200'', statusText = ''OK'',
              body = ''{\"event_id\":\"\",\"id\":0}''\<rparr>"
  let ?r1 = "\<lparr>ok = True, status = ''200'', statusText = ''OK'', body = ''{\"event_id\":\"e1\"}''\<rparr>"
  let ?r2 = "\<lparr>ok = True, status = ''200'', statusText = ''OK'',
              body = ''{\"event_id\":{\"toString\":1}}''\<rparr>"
  let ?v0 = "JObj [(''event_id'', JStr []), (''id'', JNum ''0'')]"
  let ?v1 = "JObj [(''event_id'', JStr ''e1'')]"
  let ?v2 = "JObj [(''event_id'', JObj [(''toString'', JNum ''1'')])]"
  have i0: "incoming (sampleWorld [okResponse ''{\"event_id\":\"\",\"id\":0}'']) = Inr ?r0 # []"
    by (simp add: sampleWorld_def okResponse_def)
  have i1: "incoming (sampleWorld [okResponse ''{\"event_id\":\"e1\"}'']) = Inr ?r1 # []"
    by (simp add: sampleWorld_def okResponse_def)
  have i2: "incoming (sampleWorld [okResponse ''{\"event_id\":{\"toString\":1}}'']) = Inr ?r2 # []"
    by (simp add: sampleWorld_def okResponse_def)
  have j0: "json sampleEnv ?r0 = Inr ?v0" by code_simp
  have j1: "json sampleEnv ?r1 = Inr ?v1" by code_simp
  have j2: "json sampleEnv ?r2 = Inr ?v2" by code_simp
  have u: "normalizeBaseUrl ?u = Inr ''http://batch:7860''" by code_simp
  have n: "jsString ?n = Inr ''/transcribe_file''" by code_simp
  have f0: "\<not> truthy (field ?v0 ''event_id'') \<and> \<not> truthy (field ?v0 ''eventId'')
            \<and> \<not> truthy (field ?v0 ''id'')"
    by code_simp
  have id1: "eventIdOf ?v1 = Inr (JStr ''e1'') \<and> truthy (JStr ''e1'')
             \<and> jsString (JStr ''e1'') = Inr ''e1''"
    by code_simp
  have id2: "eventIdOf ?v2 = Inr (JObj [(''toString'', JNum ''1'')])
             \<and> truthy (JObj [(''toString'', JNum ''1'')])
             \<and> jsString (JObj [(''toString'', JNum ''1'')]) = Inl TypeError"
    by code_simp
  from event_id_selection [OF i0 _ j0 _ u n, of "[]"] f0
  have "fst (callGradio sampleEnv ?u ?n [] (sampleWorld [okResponse ''{\"event_id\":\"\",\"id\":0}'']))
          = Inl (Error ''Gradio call returned no event id.'')
        \<and> newEvents (sampleWorld [okResponse ''{\"event_id\":\"\",\"id\":0}''])
            (snd (callGradio sampleEnv ?u ?n [] (sampleWorld [okResponse ''{\"event_id\":\"\",\"id\":0}''])))
          = [Fetch (callRequest ''http://batch:7860'' ''/transcribe_file'' [])]"
    by simp
  moreover from event_id_selection [OF i1 _ j1 _ u n, of "[]"] id1
  have "newEvents (sampleWorld [okResponse ''{\"event_id\":\"e1\"}''])
            (snd (callGradio sampleEnv ?u ?n [] (sampleWorld [okResponse ''{\"event_id\":\"e1\"}''])))
          = [Fetch (callRequest ''http://batch:7860'' ''/transcribe_file'' []),
             Fetch (eventRequest ''http://batch:7860'' ''/transcribe_file'' ''e1'')]"
    by simp
  moreover from event_id_selection [OF i2 _ j2 _ u n, of "[]"] id2
  have "fst (callGradio sampleEnv ?u ?n [] (sampleWorld [okResponse ''{\"event_id\":{\"toString\":1}}'']))
          = Inl TypeError
        \<and> newEvents (sampleWorld [okResponse ''{\"event_id\":{\"toString\":1}}''])
            (snd (callGradio sampleEnv ?u ?n [] (sampleWorld [okResponse ''{\"event_id\":{\"toString\":1}}''])))
          = [Fetch (callRequest ''http://batch:7860'' ''/transcribe_file'' [])]"
    by simp
  ultimately show ?thesis by simp
qed

lemma data_line_nonempty: "startsWith t ''data:'' \<Longrightarrow> t \<noteq> []"
  by (auto simp: startsWith_def)

lemma dataLines_filter:
  "filter (\<lambda>l. startsWith l ''data:'') (filter (\<lambda>l. l \<noteq> []) (map trim ls))
     = map trim (filter isDataLine ls)"
  by (induction ls) (auto simp: isDataLine_def dest: data_line_nonempty)

lemma eventPayload_alt:
  "eventPayload e text0 =
     (if filter isDataLine (splitOn (CHR 0x0A) text0) = []
      then Inl (Error ''Gradio event returned no data.'')
      else Inr (payloadOf e (last (filter isDataLine (splitOn (CHR 0x0A) text0)))))"
proof -
  have len: "length ''data:'' = 5" by simp
  show ?thesis
    unfolding eventPayload_def Let_def dataLines_filter len
    by (simp add: payloadOf_def last_map split: option.splits)
qed

lemma callGradio_polled:
  assumes "incoming w = Inr response # Inr eventResponse # rest" and "ok response"
      and "json e response = Inr result"
      and "normalizeBaseUrl apiUrl = Inr base" and "jsString apiName = Inr name"
      and "eventIdOf result = Inr eventId" and "truthy eventId"
      and "jsString eventId = Inr ident" and "ok eventResponse"
  shows "fst (callGradio e apiUrl apiName dataArray w) = eventPayload e (body eventResponse)"
  using assms
  by (simp add: callGradio_answered [OF assms(1) assms(2) assms(3) assms(4) assms(5)]
        Let_def fetch_reply)

text \<open>
  Claim C4. Once the call step has an event identifier, has formed the event URL from
  it, and the event-poll GET is answered with success, the result is read from the body's lines alone. With no data line the step
  fails with the no-data error. Otherwise the payload is that of the last data line: the
  text after \<open>data:\<close>, trimmed, parsed as JSON when that succeeds and the string itself
  when not. A body with the data lines \<open>[1,["hi"]]\<close> then \<open>[2,["final"]]\<close> yields the
  parse of the second. Lines are trimmed before they are tested for the prefix.
\<close>

theorem event_poll_last_data_line:
  assumes posted: "incoming w = Inr response # Inr eventResponse # rest"
      and good: "ok response"
      and parsed: "json e response = Inr result"
      and base: "normalizeBaseUrl apiUrl = Inr base"
      and name: "jsString apiName = Inr name"
      and ident: "eventIdOf result = Inr eventId" "truthy eventId"
      and formed: "jsString eventId = Inr ident"
      and polled: "ok eventResponse"
  shows "((\<forall>l \<in> set (splitOn (CHR 0x0A) (body eventResponse)). \<not> isDataLine l) \<longrightarrow>
            fst (callGradio e apiUrl apiName dataArray w)
              = Inl (Error ''Gradio event returned no data.''))
       \<and> (\<forall>before l after.
            splitOn (CHR 0x0A) (body eventResponse) = before @ [l] @ after \<and> isDataLine l
            \<and> (\<forall>m \<in> set after. \<not> isDataLine m) \<longrightarrow>
              fst (callGradio e apiUrl apiName dataArray w)
                = Inr (case jsonParse e (trim (drop 5 (trim l))) of
                         Some v \<Rightarrow> v
                       | None \<Rightarrow> JStr (trim (drop 5 (trim l)))))
       \<and> (body eventResponse
             = ''data: [1,[\"hi\"]]'' @ [CHR 0x0A] @ ''data: [2,[\"final\"]]'' @ [CHR 0x0A] \<longrightarrow>
              fst (callGradio e apiUrl apiName dataArray w)
                = Inr (case jsonParse e ''[2,[\"final\"]]'' of
                         Some v \<Rightarrow> v
                       | None \<Rightarrow> JStr ''[2,[\"final\"]]''))"
proof -
  note run = callGradio_polled [OF posted good parsed base name ident formed polled]
  let ?ls = "splitOn (CHR 0x0A) (body eventResponse)"
  have none: "(\<forall>l \<in> set ?ls. \<not> isDataLine l) \<longrightarrow>
            fst (callGradio e apiUrl apiName dataArray w)
              = Inl (Error ''Gradio event returned no data.'')"
  proof
    assume "\<forall>l \<in> set ?ls. \<not> isDataLine l"
    then have "filter isDataLine ?ls = []" by (simp add: filter_empty_conv)
    then show "fst (callGradio e apiUrl apiName dataArray w)
              = Inl (Error ''Gradio event returned no data.'')"
      by (simp add: run eventPayload_alt)
  qed
  have lastwins: "\<forall>before l after.
            ?ls = before @ [l] @ after \<and> isDataLine l
            \<and> (\<forall>m \<in> set after. \<not> isDataLine m) \<longrightarrow>
              fst (callGradio e apiUrl apiName dataArray w)
                = Inr (case jsonParse e (trim (drop 5 (trim l))) of
                         Some v \<Rightarrow> v
                       | None \<Rightarrow> JStr (trim (drop 5 (trim l))))"
  proof (intro allI impI)
    fix before l after
    assume h: "?ls = before @ [l] @ after \<and> isDataLine l \<and> (\<forall>m \<in> set after. \<not> isDataLine m)"
    then have "filter isDataLine after = []" by (simp add: filter_empty_conv)
    with h have "filter isDataLine ?ls = filter isDataLine before @ [l]" by simp
    then show "fst (callGradio e apiUrl apiName dataArray w)
                = Inr (case jsonParse e (trim (drop 5 (trim l))) of
                         Some v \<Rightarrow> v
                       | None \<Rightarrow> JStr (trim (drop 5 (trim l))))"
      by (simp add: run eventPayload_alt payloadOf_def Let_def)
  qed
  have example: "body eventResponse
             = ''data: [1,[\"hi\"]]'' @ [CHR 0x0A] @ ''data: [2,[\"final\"]]'' @ [CHR 0x0A] \<longrightarrow>
              fst (callGradio e apiUrl apiName dataArray w)
                = Inr (case jsonParse e ''[2,[\"final\"]]'' of
                         Some v \<Rightarrow> v
                       | None \<Rightarrow> JStr ''[2,[\"final\"]]'')"
    by (simp add: run eventPayload_def Let_def trim_def startsWith_def isWhiteSpace_def
          split: option.splits)
  show ?thesis using none lastwins example by blast
qed

theorem event_poll_last_data_line_witness:
  "fst (callGradio sampleEnv (JStr ''http://batch:7860/'') (JStr ''/transcribe_file'') []
          (sampleWorld (tl sampleBatchReplies)))
     = Inr (JArr [JNum ''2'', JArr [JStr ''final'']])
   \<and> fst (callGradio sampleEnv (JStr ''http://batch:7860/'') (JStr ''/transcribe_file'') []
          (sampleWorld [okResponse ''{\"event_id\":\"e1\"}'', okResponse ''event: heartbeat'']))
     = Inl (Error ''Gradio event returned no data.'')"
proof -
  let ?u = "JStr ''http://batch:7860/''"
  let ?n = "JStr ''/transcribe_file''"
  let ?r1 = "\<lparr>ok = True, status = ''200'', statusText = ''OK'', body = ''{\"event_id\":\"e1\"}''\<rparr>"
  let ?b2 = "''data: [1,[\"hi\"]]'' @ [CHR 0x0A] @ ''data: [2,[\"final\"]]'' @ [CHR 0x0A]"
  let ?r2 = "\<lparr>ok = True, status = ''200'', statusText = ''OK'', body = ?b2\<rparr>"
  let ?r3 = "\<lparr>ok = True, status = ''200'', statusText = ''OK'', body = ''event: heartbeat''\<rparr>"
  let ?v1 = "JObj [(''event_id'', JStr ''e1'')]"
  have i2: "incoming (sampleWorld (tl sampleBatchReplies)) = Inr ?r1 # Inr ?r2 # []"
    by (simp add: sampleWorld_def sampleBatchReplies_def okResponse_def)
  have i3: "incoming (sampleWorld [okResponse ''{\"event_id\":\"e1\"}'', okResponse ''event: heartbeat''])
              = Inr ?r1 # Inr ?r3 # []"
    by (simp add: sampleWorld_def okResponse_def)
  have j1: "json sampleEnv ?r1 = Inr ?v1" by code_simp
  have id1: "eventIdOf ?v1 = Inr (JStr ''e1'')" by code_simp
  have u: "normalizeBaseUrl ?u = Inr ''http://batch:7860''" by code_simp
  have n: "jsString ?n = Inr ''/transcribe_file''" by code_simp
  have s1: "jsString (JStr ''e1'') = Inr ''e1''" by code_simp
  have p2: "jsonParse sampleEnv ''[2,[\"final\"]]'' = Some (JArr [JNum ''2'', JArr [JStr ''final'']])"
    by code_simp
  have none3: "\<forall>l \<in> set (splitOn (CHR 0x0A) (body ?r3)). \<not> isDataLine l" by code_simp
  from event_poll_last_data_line [OF i2 _ j1 u n id1 _ s1, of "[]"] p2
  have "fst (callGradio sampleEnv ?u ?n [] (sampleWorld (tl sampleBatchReplies)))
          = Inr (JArr [JNum ''2'', JArr [JStr ''final'']])"
    by simp
  moreover from event_poll_last_data_line [OF i3 _ j1 u n id1 _ s1, of "[]"] none3
  have "fst (callGradio sampleEnv ?u ?n []
               (sampleWorld [okResponse ''{\"event_id\":\"e1\"}'', okResponse ''event: heartbeat'']))
          = Inl (Error ''Gradio event returned no data.'')"
    by simp
  ultimately show ?thesis by simp
qed

section \<open>Remote batch service: the upload step\<close>

lemma fetch_newEvents: "newEvents w (snd (fetch req w)) = [Fetch req]"
  by (simp add: fetch_def emit_def newEvents_def split: list.splits)

lemma uploadToGradio_sent:
  assumes "readFile e (resolvePath e filePath) = Inr content"
      and "normalizeBaseUrl apiUrl = Inr base"
  shows "newEvents w (snd (uploadToGradio e apiUrl filePath w)) =
     [Fetch (uploadRequest base (uploadFileName (basename (resolvePath e filePath)))
        (getMimeType (uploadFileName (basename (resolvePath e filePath)))) content)]"
proof -
  let ?name = "uploadFileName (basename (resolvePath e filePath))"
  let ?req = "uploadRequest base ?name (getMimeType ?name) content"
  obtain r w1 where f: "fetch ?req w = (r, w1)" by force
  with fetch_newEvents [of w ?req] have n: "newEvents w w1 = [Fetch ?req]" by simp
  have "snd (uploadToGradio e apiUrl filePath w) = w1"
    using assms f
    by (simp add: uploadToGradio_def Let_def uploadRequest_def uploadFileName_def toLowerCase_def
          split: sum.splits)
  with n show ?thesis by simp
qed

lemma basename_no_slash: "CHR ''/'' \<notin> set (basename p)"
  by (auto simp: basename_def dest: set_takeWhileD)

lemma basename_id: "CHR ''/'' \<notin> set b \<Longrightarrow> basename b = b"
proof -
  assume h: "CHR ''/'' \<notin> set b"
  then have d: "dropWhile (\<lambda>c. c = CHR ''/'') (rev b) = rev b"
    by (cases "rev b") auto
  from h have t: "takeWhile (\<lambda>c. c \<noteq> CHR ''/'') (rev b) = rev b"
    by (auto simp: takeWhile_eq_all_conv)
  show ?thesis unfolding basename_def d t by simp
qed

lemma extname_wav:
  assumes "CHR ''/'' \<notin> set b" and "b \<noteq> []"
  shows "extname (b @ ''.wav'') = ''.wav''"
proof -
  have bn: "basename (b @ ''.wav'') = b @ ''.wav''" using assms by (simp add: basename_id)
  have "last (b @ ''.wav'') = CHR ''v''" by simp
  then have ne: "b @ ''.wav'' \<noteq> ''..''" by auto
  show ?thesis using assms(2) ne
    by (simp add: extname_def Let_def bn)
qed


text \<open>
  Claim C10. Whenever the file can be read and the base URL has a string form, the
  upload is one POST of a multipart form
  with one file entry. If the base name has no extension, the file name sent is the base
  name with \<open>.wav\<close> appended, and its MIME type is \<open>audio/wav\<close> (for every base name but the
  empty one, which only the root directory has). If the base name has an extension, the
  file name is the base name unchanged and the MIME type is the one \<open>getMimeType\<close> gives
  that name.
\<close>

theorem upload_file_name:
  assumes readable: "readFile e (resolvePath e filePath) = Inr content"
      and base: "normalizeBaseUrl apiUrl = Inr base"
  shows "newEvents w (snd (uploadToGradio e apiUrl filePath w)) =
           [Fetch (uploadRequest base (uploadFileName (basename (resolvePath e filePath)))
              (getMimeType (uploadFileName (basename (resolvePath e filePath)))) content)]
       \<and> (extname (basename (resolvePath e filePath)) = [] \<longrightarrow>
            uploadFileName (basename (resolvePath e filePath))
              = basename (resolvePath e filePath) @ ''.wav''
            \<and> (basename (resolvePath e filePath) \<noteq> [] \<longrightarrow>
                 getMimeType (uploadFileName (basename (resolvePath e filePath))) = ''audio/wav''))
       \<and> (extname (basename (resolvePath e filePath)) \<noteq> [] \<longrightarrow>
            uploadFileName (basename (resolvePath e filePath)) = basename (resolvePath e filePath)
            \<and> getMimeType (uploadFileName (basename (resolvePath e filePath)))
                = getMimeType (basename (resolvePath e filePath)))"
proof -
  let ?b = "basename (resolvePath e filePath)"
  have wav: "extname ?b = [] \<and> ?b \<noteq> [] \<longrightarrow> getMimeType (?b @ ''.wav'') = ''audio/wav''"
  proof
    assume "extname ?b = [] \<and> ?b \<noteq> []"
    then have "extname (?b @ ''.wav'') = ''.wav''"
      using basename_no_slash [of "resolvePath e filePath"] by (simp add: extname_wav)
    moreover have "toLowerCase ''.wav'' = ''.wav''" by code_simp
    ultimately show "getMimeType (?b @ ''.wav'') = ''audio/wav''"
      by (simp add: getMimeType_def)
  qed
  show ?thesis
    using uploadToGradio_sent [OF readable base, of w] wav
    by (simp add: uploadFileName_def)
qed

theorem upload_file_name_witness:
  "newEvents (sampleWorld []) (snd (uploadToGradio sampleEnv (JStr ''http://batch:7860/'') ''clip''
       (sampleWorld [])))
     = [Fetch (uploadRequest ''http://batch:7860'' ''clip.wav'' ''audio/wav'' ''RIFF'')]
   \<and> newEvents (sampleWorld []) (snd (uploadToGradio sampleEnv (JStr ''http://batch:7860/'')
       ''talk.MP3'' (sampleWorld [])))
     = [Fetch (uploadRequest ''http://batch:7860'' ''talk.MP3'' ''audio/mpeg'' ''ID3'')]"
proof -
  let ?u = "JStr ''http://batch:7860/''"
  have u: "normalizeBaseUrl ?u = Inr ''http://batch:7860''" by code_simp
  have r0: "readFile sampleEnv (resolvePath sampleEnv ''clip'') = Inr ''RIFF''" by code_simp
  have r1: "readFile sampleEnv (resolvePath sampleEnv ''talk.MP3'') = Inr ''ID3''" by code_simp
  have b0: "basename (resolvePath sampleEnv ''clip'') = ''clip''" by code_simp
  have b1: "basename (resolvePath sampleEnv ''talk.MP3'') = ''talk.MP3''" by code_simp
  have e0: "extname ''clip'' = []" by code_simp
  have e1: "extname ''talk.MP3'' \<noteq> []" by code_simp
  have m0: "getMimeType ''clip.wav'' = ''audio/wav''" by code_simp
  have m1: "getMimeType ''talk.MP3'' = ''audio/mpeg''" by code_simp
  from upload_file_name [OF r0 u, of "sampleWorld []"] b0 e0 m0
  have "newEvents (sampleWorld []) (snd (uploadToGradio sampleEnv ?u ''clip'' (sampleWorld [])))
          = [Fetch (uploadRequest ''http://batch:7860'' ''clip.wav'' ''audio/wav'' ''RIFF'')]"
    by simp
  moreover from upload_file_name [OF r1 u, of "sampleWorld []"] b1 e1 m1
  have "newEvents (sampleWorld []) (snd (uploadToGradio sampleEnv ?u ''talk.MP3'' (sampleWorld [])))
          = [Fetch (uploadRequest ''http://batch:7860'' ''talk.MP3'' ''audio/mpeg'' ''ID3'')]"
    by simp
  ultimately show ?thesis by simp
qed

section \<open>Result normalizer\<close>




section \<open>Subtitle cleanup\<close>

lemma splitWhere_nonempty: "splitWhere P s \<noteq> []"
  by (induction s) (auto split: list.splits)

lemma splitOn_nonempty: "splitOn d s \<noteq> []"
  by (induction s) (auto split: list.splits)

lemma splitWhere_sep: "P c \<Longrightarrow> splitWhere P (a @ c # b) = splitWhere P a @ splitWhere P b"
  by (induction a) (auto split: list.splits simp: splitWhere_nonempty)

lemma wordsOf_sep: "isWhiteSpace c \<Longrightarrow> wordsOf (a @ c # b) = wordsOf a @ wordsOf b"
  by (simp add: wordsOf_def splitWhere_sep)

lemma wordsOf_Nil: "wordsOf [] = []"
  by (simp add: wordsOf_def)

lemma wordsOf_ws_Cons: "isWhiteSpace c \<Longrightarrow> wordsOf (c # s) = wordsOf s"
  using wordsOf_sep [of c "[]" s] by (simp add: wordsOf_Nil)

lemma wordsOf_ws_snoc: "isWhiteSpace c \<Longrightarrow> wordsOf (s @ [c]) = wordsOf s"
  using wordsOf_sep [of c s "[]"] by (simp add: wordsOf_Nil)

lemma wordsOf_dropWhile: "wordsOf (dropWhile isWhiteSpace s) = wordsOf s"
  by (induction s) (simp_all add: wordsOf_ws_Cons)

lemma wordsOf_dropWhile_rev: "wordsOf (rev (dropWhile isWhiteSpace (rev s))) = wordsOf s"
  by (induction s rule: rev_induct) (simp_all add: wordsOf_ws_snoc)

lemma wordsOf_trim: "wordsOf (trim s) = wordsOf s"
  by (simp add: trim_def wordsOf_dropWhile_rev wordsOf_dropWhile)

lemma joinWith_Cons_Cons: "ls \<noteq> [] \<Longrightarrow> joinWith sep ((c # l) # tl ls) = c # joinWith sep (l # tl ls)"
  by (cases "tl ls") simp_all

lemma joinWith_head: "joinWith sep ((c # l) # ls) = c # joinWith sep (l # ls)"
  by (cases ls) simp_all

lemma joinWith_splitOn: "joinWith [d] (splitOn d s) = s"
proof (induction s)
  case Nil
  show ?case by simp
next
  case (Cons c cs)
  obtain l ls where sp: "splitOn d cs = l # ls"
    using splitOn_nonempty [of d cs] by (cases "splitOn d cs") auto
  with Cons show ?case by (simp add: joinWith_head)
qed

lemma wordsOf_joinWith:
  "isWhiteSpace d \<Longrightarrow> wordsOf (joinWith [d] xs) = concat (map wordsOf xs)"
  by (induction "[d]" xs rule: joinWith.induct) (simp_all add: wordsOf_Nil wordsOf_sep)

lemma ws_chars: "isWhiteSpace (CHR 0x0A)" "isWhiteSpace (CHR 0x0D)" "isWhiteSpace (CHR '' '')"
  by (simp_all add: isWhiteSpace_def)

lemma wordsOf_splitOn: "concat (map wordsOf (splitOn (CHR 0x0A) s)) = wordsOf s"
  using wordsOf_joinWith [of "CHR 0x0A" "splitOn (CHR 0x0A) s"]
  by (simp add: joinWith_splitOn ws_chars)

lemma wordsOf_dropCR: "wordsOf (dropCR l) = wordsOf l"
proof (cases "l \<noteq> [] \<and> last l = CHR 0x0D")
  case True
  then have "l = butlast l @ [CHR 0x0D]" by (metis append_butlast_last_id)
  then have "wordsOf l = wordsOf (butlast l)"
    using wordsOf_ws_snoc [of "CHR 0x0D" "butlast l"] by (simp add: ws_chars)
  with True show ?thesis by (simp add: dropCR_def)
next
  case False
  then show ?thesis by (auto simp: dropCR_def)
qed

lemma wordsOf_splitLines: "concat (map wordsOf (splitLines s)) = wordsOf s"
proof -
  let ?ps = "splitOn (CHR 0x0A) s"
  have ne: "?ps \<noteq> []" by (rule splitOn_nonempty)
  have "concat (map wordsOf (splitLines s))
          = concat (map wordsOf (butlast ?ps)) @ wordsOf (last ?ps)"
    by (simp add: splitLines_def Let_def comp_def wordsOf_dropCR)
  also have "\<dots> = concat (map wordsOf (butlast ?ps @ [last ?ps]))" by simp
  also have "\<dots> = concat (map wordsOf ?ps)" using ne by simp
  finally show ?thesis by (simp add: wordsOf_splitOn)
qed

lemma wordsOf_kept:
  "\<forall>t \<in> set ts. \<not> droppedLine t \<Longrightarrow>
     concat (map wordsOf (filter keepLine ts)) = concat (map wordsOf ts)"
  by (induction ts) (auto simp: keepLine_def droppedLine_def wordsOf_Nil)

lemma wordsOf_stripSrt:
  assumes "stripTimestampPrefix (trim s) = trim s"
      and "\<forall>l \<in> set (splitLines (trim s)). \<not> droppedLine (trim l)"
  shows "wordsOf (stripSrt s) = wordsOf s"
proof -
  let ?lines = "splitLines (trim s)"
  have "wordsOf (stripSrt s) = concat (map wordsOf (filter keepLine (map trim ?lines)))"
    using wordsOf_joinWith [of "CHR '' ''"]
    by (simp add: stripSrt_def Let_def assms(1) wordsOf_trim ws_chars)
  also have "\<dots> = concat (map wordsOf (map trim ?lines))"
    using assms(2) by (intro wordsOf_kept) simp
  also have "\<dots> = concat (map wordsOf ?lines)" by (simp add: comp_def wordsOf_trim)
  also have "\<dots> = wordsOf s" by (simp add: wordsOf_splitLines wordsOf_trim)
  finally show ?thesis .
qed

lemma set_trim: "set (trim s) \<subseteq> set s"
proof -
  have "set (trim s) \<subseteq> set (dropWhile isWhiteSpace s)"
    unfolding trim_def using set_dropWhileD [of _ isWhiteSpace "rev (dropWhile isWhiteSpace s)"]
    by auto
  then show ?thesis using set_dropWhileD [of _ isWhiteSpace s] by auto
qed

lemma splitOn_no_sep: "l \<in> set (splitOn d s) \<Longrightarrow> d \<notin> set l"
  by (induction s arbitrary: l) (auto split: list.splits if_splits)

lemma set_dropCR: "set (dropCR l) \<subseteq> set l"
  by (auto simp: dropCR_def dest: in_set_butlastD)

lemma splitLines_no_LF: "l \<in> set (splitLines s) \<Longrightarrow> CHR 0x0A \<notin> set l"
proof -
  let ?ps = "splitOn (CHR 0x0A) s"
  assume "l \<in> set (splitLines s)"
  then have "l \<in> dropCR ` set (butlast ?ps) \<or> l = last ?ps"
    by (auto simp: splitLines_def Let_def)
  then show ?thesis
  proof
    assume "l \<in> dropCR ` set (butlast ?ps)"
    then obtain q where q: "q \<in> set ?ps" and l: "l = dropCR q"
      by (auto dest: in_set_butlastD)
    from splitOn_no_sep [OF q] l set_dropCR [of q] show ?thesis by auto
  next
    assume "l = last ?ps"
    then have "l \<in> set ?ps" using splitOn_nonempty [of "CHR 0x0A" s] by simp
    then show ?thesis by (rule splitOn_no_sep)
  qed
qed

lemma set_joinWith: "set (joinWith sep xs) \<subseteq> set sep \<union> \<Union> (set ` set xs)"
  by (induction sep xs rule: joinWith.induct) auto

lemma stripSrt_no_LF: "CHR 0x0A \<notin> set (stripSrt x)"
proof
  assume "CHR 0x0A \<in> set (stripSrt x)"
  then have "CHR 0x0A \<in> set (joinWith '' ''
      (filter keepLine (map trim (splitLines (stripTimestampPrefix (trim x))))))"
    using set_trim by (auto simp: stripSrt_def Let_def)
  then obtain l where "l \<in> set (splitLines (stripTimestampPrefix (trim x)))"
      and "CHR 0x0A \<in> set (trim l)"
    using set_joinWith [of "'' ''"] by fastforce
  then show False using splitLines_no_LF set_trim by blast
qed

lemma splitOn_single: "d \<notin> set s \<Longrightarrow> splitOn d s = [s]"
  by (induction s) auto

lemma splitLines_single: "CHR 0x0A \<notin> set s \<Longrightarrow> splitLines s = [s]"
  by (simp add: splitLines_def splitOn_single)

lemma stripSrt_fixed:
  assumes "trim y = y" and "CHR 0x0A \<notin> set y" and "stripTimestampPrefix y = y"
      and "\<not> droppedLine y"
  shows "stripSrt y = y"
proof (cases "y = []")
  case True
  have "stripSrt [] = []" by code_simp
  with True show ?thesis by simp
next
  case False
  with assms(4) have "keepLine y" by (simp add: keepLine_def droppedLine_def)
  then show ?thesis
    using assms by (simp add: stripSrt_def Let_def splitLines_single)
qed

lemma trim_stripSrt: "trim (stripSrt x) = stripSrt x"
  by (simp add: stripSrt_def Let_def trim_idem)

lemma joinWith_nonempty: "x \<noteq> [] \<Longrightarrow> joinWith sep (x # xs) \<noteq> []"
  by (cases xs) auto

lemma trimmed_joinWith:
  "\<forall>t \<in> set xs. t \<noteq> [] \<and> trimmed t \<Longrightarrow> trimmed (joinWith '' '' xs)"
proof (induction "'' ''" xs rule: joinWith.induct)
  case 1
  show ?case by (simp add: trimmed_def)
next
  case (2 x)
  then show ?case by simp
next
  case (3 x y ys)
  from "3.prems" have px: "x \<noteq> []" "trimmed x"
      and rest: "\<forall>t \<in> set (y # ys). t \<noteq> [] \<and> trimmed t"
    by simp_all
  from "3.hyps" [OF rest] have j: "trimmed (joinWith '' '' (y # ys))" .
  from rest have ne: "joinWith '' '' (y # ys) \<noteq> []" by (simp add: joinWith_nonempty)
  from px have hx: "\<not> isWhiteSpace (hd x)" by (simp add: trimmed_def)
  from j ne have lj: "\<not> isWhiteSpace (last (joinWith '' '' (y # ys)))"
    by (simp add: trimmed_def)
  show ?case using px(1) hx ne lj by (simp add: trimmed_def)
qed

lemma stripSrt_not_number: "\<not> isSequenceNumber (stripSrt x)"
proof -
  let ?out = "filter keepLine (map trim (splitLines (stripTimestampPrefix (trim x))))"
  have el: "\<forall>t \<in> set ?out. t \<noteq> [] \<and> trimmed t"
    by (auto simp: keepLine_def trimmed_trim)
  then have "trimmed (joinWith '' '' ?out)" by (rule trimmed_joinWith)
  then have eq: "stripSrt x = joinWith '' '' ?out"
    by (simp add: stripSrt_def Let_def trim_trimmed)
  show ?thesis
  proof (cases ?out)
    case Nil
    with eq show ?thesis by (simp add: isSequenceNumber_def)
  next
    case (Cons a rest)
    show ?thesis
    proof (cases rest)
      case Nil
      with Cons have "a \<in> set ?out" by simp
      then have "keepLine a" by simp
      with Cons Nil eq show ?thesis by (simp add: keepLine_def)
    next
      case (Cons b more)
      with \<open>?out = a # rest\<close> eq have "CHR '' '' \<in> set (stripSrt x)" by simp
      moreover have "\<not> isDigit (CHR '' '')" by (simp add: isDigit_def)
      ultimately show ?thesis by (auto simp: isSequenceNumber_def list_all_iff)
    qed
  qed
qed

text \<open>
  Claim C3, as stated, fails. Cleanup joins the kept lines into one line, and that line
  can be one the filter drops: \<open>Done\<close> and \<open>in a moment\<close> on two lines are both kept, and
  joined they are a banner line, which a second cleanup removes. The second half fails
  too: a plain one-line sentence that starts with a numeric timestamp loses that prefix.
\<close>

theorem stripSrt_not_idempotent:
  "stripSrt (''Done'' @ [CHR 0x0A] @ ''in a moment'') = ''Done in a moment''
   \<and> stripSrt (stripSrt (''Done'' @ [CHR 0x0A] @ ''in a moment'')) = []
   \<and> stripSrt (stripSrt (''Done'' @ [CHR 0x0A] @ ''in a moment''))
       \<noteq> stripSrt (''Done'' @ [CHR 0x0A] @ ''in a moment'')
   \<and> stripSrt ''1234567890-123456 hello'' = ''hello''"
  by code_simp

text \<open>
  Claim C3, amended. Cleaned text is trimmed, has no line feed and is no sequence number.
  Cleaning it again returns it unchanged whenever it does not start with a numeric
  timestamp prefix and is, as one line, neither a time range nor a banner line. For every
  text without a leading numeric timestamp prefix and without a line that is a sequence
  number, a time range or a banner, cleanup returns the text unchanged modulo white-space
  collapse; when such a text is one trimmed line, cleanup returns it exactly.
\<close>

theorem stripSrt_idempotent_when_kept:
  "trim (stripSrt x) = stripSrt x
   \<and> CHR 0x0A \<notin> set (stripSrt x)
   \<and> \<not> isSequenceNumber (stripSrt x)
   \<and> (stripTimestampPrefix (stripSrt x) = stripSrt x \<and> \<not> isTimeRange (stripSrt x)
        \<and> \<not> isBanner (stripSrt x) \<longrightarrow> stripSrt (stripSrt x) = stripSrt x)
   \<and> (stripTimestampPrefix (trim x) = trim x
        \<and> (\<forall>l \<in> set (splitLines (trim x)). \<not> droppedLine (trim l)) \<longrightarrow>
          collapseWhitespace (stripSrt x) = collapseWhitespace x)
   \<and> (trim x = x \<and> CHR 0x0A \<notin> set x \<and> stripTimestampPrefix x = x \<and> \<not> droppedLine x \<longrightarrow>
          stripSrt x = x)"
proof -
  have idem: "stripTimestampPrefix (stripSrt x) = stripSrt x \<and> \<not> isTimeRange (stripSrt x)
        \<and> \<not> isBanner (stripSrt x) \<longrightarrow> stripSrt (stripSrt x) = stripSrt x"
    using stripSrt_fixed [of "stripSrt x"] trim_stripSrt stripSrt_no_LF stripSrt_not_number
    by (simp add: droppedLine_def)
  have plain: "stripTimestampPrefix (trim x) = trim x
        \<and> (\<forall>l \<in> set (splitLines (trim x)). \<not> droppedLine (trim l)) \<longrightarrow>
          collapseWhitespace (stripSrt x) = collapseWhitespace x"
    by (simp add: collapseWhitespace_def wordsOf_stripSrt)
  have single: "trim x = x \<and> CHR 0x0A \<notin> set x \<and> stripTimestampPrefix x = x \<and> \<not> droppedLine x \<longrightarrow>
          stripSrt x = x"
    by (simp add: stripSrt_fixed)
  show ?thesis
    using trim_stripSrt stripSrt_no_LF stripSrt_not_number idem plain single by blast
qed

theorem stripSrt_idempotent_when_kept_witness:
  "stripSrt (''1'' @ [CHR 0x0A] @ ''00:00:01,000 --> 00:00:02,500'' @ [CHR 0x0A]
             @ ''Hello  there'' @ [CHR 0x0D, CHR 0x0A, CHR 0x0A] @ ''2'' @ [CHR 0x0A]
             @ ''00:00:03,000 --> 00:00:04,000'' @ [CHR 0x0A] @ ''world'')
     = ''Hello  there world''
   \<and> stripSrt (stripSrt (''1'' @ [CHR 0x0A] @ ''00:00:01,000 --> 00:00:02,500'' @ [CHR 0x0A]
             @ ''Hello  there'' @ [CHR 0x0D, CHR 0x0A, CHR 0x0A] @ ''2'' @ [CHR 0x0A]
             @ ''00:00:03,000 --> 00:00:04,000'' @ [CHR 0x0A] @ ''world''))
     = ''Hello  there world''
   \<and> collapseWhitespace (stripSrt ('' It is  done '' @ [CHR 0x0A] @ ''in 5 minutes''))
     = collapseWhitespace ('' It is  done '' @ [CHR 0x0A] @ ''in 5 minutes'')
   \<and> stripSrt ''It is done in 5 minutes'' = ''It is done in 5 minutes''"
proof -
  let ?srt = "''1'' @ [CHR 0x0A] @ ''00:00:01,000 --> 00:00:02,500'' @ [CHR 0x0A]
             @ ''Hello  there'' @ [CHR 0x0D, CHR 0x0A, CHR 0x0A] @ ''2'' @ [CHR 0x0A]
             @ ''00:00:03,000 --> 00:00:04,000'' @ [CHR 0x0A] @ ''world''"
  let ?two = "'' It is  done '' @ [CHR 0x0A] @ ''in 5 minutes''"
  let ?one = "''It is done in 5 minutes''"
  have v: "stripSrt ?srt = ''Hello  there world''" by code_simp
  have h1: "stripTimestampPrefix ''Hello  there world'' = ''Hello  there world''
            \<and> \<not> isTimeRange ''Hello  there world'' \<and> \<not> isBanner ''Hello  there world''"
    by code_simp
  have h2: "stripTimestampPrefix (trim ?two) = trim ?two
            \<and> (\<forall>l \<in> set (splitLines (trim ?two)). \<not> droppedLine (trim l))"
    by code_simp
  have h3: "trim ?one = ?one \<and> CHR 0x0A \<notin> set ?one \<and> stripTimestampPrefix ?one = ?one
            \<and> \<not> droppedLine ?one"
    by code_simp
  from stripSrt_idempotent_when_kept [of ?srt] h1 v
  have "stripSrt (stripSrt ?srt) = ''Hello  there world''" by simp
  moreover from stripSrt_idempotent_when_kept [of ?two] h2
  have "collapseWhitespace (stripSrt ?two) = collapseWhitespace ?two" by blast
  moreover from stripSrt_idempotent_when_kept [of ?one] h3
  have "stripSrt ?one = ?one" by blast
  ultimately show ?thesis using v by simp
qed

end
